theory Spec2Isabelle
  imports Main "HOL-Library.Sublist"
begin

section \<open>The investigation record\<close>

text \<open>
  The dictionary \<^verbatim>\<open>self.results\<close> always has the same eight keys (the code only ever
  assigns to these), so it is a total function from the keys; the Python value
  \<^verbatim>\<open>None\<close> of a key is \<open>None\<close>, a text is \<open>Some\<close> of it.
\<close>

datatype key =
  Question | Observations | Hypothesis | Predictions
  | Experiments | Experimental_data | Analysis | Conclusion

type_synonym investigation = "key \<Rightarrow> string option"

definition pipeline_keys :: "key list" where
  "pipeline_keys =
     [Question, Observations, Hypothesis, Predictions,
      Experiments, Experimental_data, Analysis, Conclusion]"

fun key_name :: "key \<Rightarrow> string" where
  "key_name Question = ''question''"
| "key_name Observations = ''observations''"
| "key_name Hypothesis = ''hypothesis''"
| "key_name Predictions = ''predictions''"
| "key_name Experiments = ''experiments''"
| "key_name Experimental_data = ''experimental_data''"
| "key_name Analysis = ''analysis''"
| "key_name Conclusion = ''conclusion''"

text \<open>What an f-string writes for a value: the text itself, or \<^verbatim>\<open>None\<close>.\<close>

definition py_str :: "string option \<Rightarrow> string" where
  "py_str v = (case v of None \<Rightarrow> ''None'' | Some t \<Rightarrow> t)"

text \<open>Python truth of a value that is \<^verbatim>\<open>None\<close> or a string.\<close>

definition truthy :: "string option \<Rightarrow> bool" where
  "truthy v = (case v of None \<Rightarrow> False | Some t \<Rightarrow> t \<noteq> [])"

text \<open>\<^verbatim>\<open>a or b\<close>: the first operand when it is true, the second otherwise.\<close>

definition py_or :: "string option \<Rightarrow> string option \<Rightarrow> string option" where
  "py_or a b = (if truthy a then a else b)"

section \<open>The completion service\<close>

text \<open>
  A request is one of the two call shapes: \<^verbatim>\<open>responses.create(model, tools, input)\<close>
  and \<^verbatim>\<open>chat.completions.create(model, messages)\<close>. The service is outside the
  program: the client is a parameter with its two endpoints, each mapping the requests
  made so far and the new request to the value that the program reads from the answer,
  or to the exception that the call (or the reading of its answer) raises. The program
  reads \<^verbatim>\<open>output_text\<close> from the first endpoint, always a text, and
  \<^verbatim>\<open>choices[0].message.content\<close> from the second, which the client library
  declares as an optional text: it is \<^verbatim>\<open>None\<close> for a message without content.
\<close>

datatype request =
  Responses_create string "string list" string
  | Chat_completions_create string "(string \<times> string) list"

datatype error = Raised string

record openai_client =
  responses_create :: "request list \<Rightarrow> request \<Rightarrow> error + string"
  chat_completions_create :: "request list \<Rightarrow> request \<Rightarrow> error + string option"

text \<open>The value read from the answer to a request, by the endpoint of its shape.\<close>

definition answer_of :: "openai_client \<Rightarrow> request list \<Rightarrow> request \<Rightarrow> error + string option" where
  "answer_of c history req =
     (case req of
        Responses_create m tools inp \<Rightarrow>
          (case responses_create c history req of
             Inl e \<Rightarrow> Inl e
           | Inr output_text \<Rightarrow> Inr (Some output_text))
      | Chat_completions_create m messages \<Rightarrow> chat_completions_create c history req)"

section \<open>The object and its effects\<close>

text \<open>
  The fields of a \<^verbatim>\<open>ScientificMethod\<close> object, with the two things outside it that
  its methods change: the contents of the file \<open>log_file\<close>, one entry for each
  \<^verbatim>\<open>write\<close>, and the requests sent to the service so far. The console output of
  \<^verbatim>\<open>log_and_print\<close> repeats the messages of the log and is left out.
\<close>

record scientific_method =
  client :: openai_client
  model :: string
  log_file :: string
  results :: investigation
  log_contents :: "string list"
  calls :: "request list"

type_synonym 'a action = "scientific_method \<Rightarrow> (error + 'a) \<times> scientific_method"

definition pure_act :: "'a \<Rightarrow> 'a action" where
  "pure_act a s = (Inr a, s)"

text \<open>Sequencing: an exception of the first action ends the run with the state it left.\<close>

definition bind_act :: "'a action \<Rightarrow> ('a \<Rightarrow> 'b action) \<Rightarrow> 'b action" where
  "bind_act f g s = (case f s of (Inl e, s') \<Rightarrow> (Inl e, s') | (Inr a, s') \<Rightarrow> g a s')"

definition log_and_print :: "string \<Rightarrow> unit action" where
  "log_and_print message s =
     (Inr (), s\<lparr>log_contents := log_contents s @ [message @ ''\<newline>'']\<rparr>)"

definition create_response :: "request \<Rightarrow> string action" where
  "create_response req s =
     (responses_create (client s) (calls s) req, s\<lparr>calls := calls s @ [req]\<rparr>)"

definition create_chat_completion :: "request \<Rightarrow> string option action" where
  "create_chat_completion req s =
     (chat_completions_create (client s) (calls s) req, s\<lparr>calls := calls s @ [req]\<rparr>)"

section \<open>The prompts\<close>

definition observe_prompt :: "string \<Rightarrow> string" where
  "observe_prompt question =
     ''You are a scientist beginning an investigation.\<newline>'' @
     ''\<newline>'' @
     ''Question: \<newline>'' @
     question @
     ''\<newline>'' @
     ''\<newline>'' @
     ''Provide initial observations and context relevant to this question.\<newline>'' @
     ''Include known facts, background information, and what we already know about this topic.\<newline>'' @
     ''Be concise but thorough.''"

definition hypothesize_prompt :: "investigation \<Rightarrow> string" where
  "hypothesize_prompt r =
     ''Based on the following question and observations, formulate a clear, testable hypothesis.\<newline>'' @
     ''\<newline>'' @
     ''Question: \<newline>'' @
     py_str (r Question) @
     ''\<newline>'' @
     ''\<newline>'' @
     ''Observations:\<newline>'' @
     py_str (r Observations) @
     ''\<newline>'' @
     ''\<newline>'' @
     ''Provide a specific hypothesis that:\<newline>'' @
     ''1. Is falsifiable\<newline>'' @
     ''2. Makes a clear prediction\<newline>'' @
     ''3. Can be tested through experimentation or further observation\<newline>'' @
     ''\<newline>'' @
     ''Format your response as a single clear hypothesis statement.''"

definition predict_prompt :: "investigation \<Rightarrow> string" where
  "predict_prompt r =
     ''Given this hypothesis, what specific, testable predictions can we make?\<newline>'' @
     ''\<newline>'' @
     ''Question: \<newline>'' @
     py_str (r Question) @
     ''\<newline>'' @
     ''\<newline>'' @
     ''Hypothesis: \<newline>'' @
     py_str (r Hypothesis) @
     ''\<newline>'' @
     ''\<newline>'' @
     ''Generate 3-5 specific predictions that would support or refute this hypothesis.\<newline>'' @
     ''Each prediction should be:\<newline>'' @
     ''1. Specific and measurable\<newline>'' @
     ''2. Directly testable\<newline>'' @
     ''3. Clearly linked to the hypothesis\<newline>'' @
     ''\<newline>'' @
     ''Format as a numbered list.''"

definition experiment_prompt :: "investigation \<Rightarrow> string" where
  "experiment_prompt r =
     ''Design experiments to test these predictions.\<newline>'' @
     ''\<newline>'' @
     ''Question: \<newline>'' @
     py_str (r Question) @
     ''\<newline>'' @
     ''\<newline>'' @
     ''Hypothesis: \<newline>'' @
     py_str (r Hypothesis) @
     ''\<newline>'' @
     ''\<newline>'' @
     ''Predictions:\<newline>'' @
     py_str (r Predictions) @
     ''\<newline>'' @
     ''\<newline>'' @
     ''For each prediction, describe:\<newline>'' @
     ''1. The experimental method\<newline>'' @
     ''2. What data to collect\<newline>'' @
     ''3. How to control variables\<newline>'' @
     ''4. Expected outcomes if hypothesis is correct vs. incorrect\<newline>'' @
     ''\<newline>'' @
     ''Be specific and practical.''"

definition generate_experimental_data_prompt :: "investigation \<Rightarrow> string" where
  "generate_experimental_data_prompt r =
     ''You are conducting the following experiments. Generate realistic simulated experimental data.\<newline>'' @
     ''\<newline>'' @
     ''Question: \<newline>'' @
     py_str (r Question) @
     ''\<newline>'' @
     ''\<newline>'' @
     ''Hypothesis: \<newline>'' @
     py_str (r Hypothesis) @
     ''\<newline>'' @
     ''\<newline>'' @
     ''Predictions:\<newline>'' @
     py_str (r Predictions) @
     ''\<newline>'' @
     ''\<newline>'' @
     ''Experimental Design:\<newline>'' @
     py_str (r Experiments) @
     ''\<newline>'' @
     ''\<newline>'' @
     ''Generate realistic experimental data that would result from conducting these experiments.\<newline>'' @
     ''Include:\<newline>'' @
     ''1. Quantitative measurements (with realistic variability)\<newline>'' @
     ''2. Observations\<newline>'' @
     ''3. Data tables or results summaries\<newline>'' @
     ''4. Any unexpected findings or anomalies\<newline>'' @
     ''\<newline>'' @
     ''Make the data realistic and internally consistent. Format it clearly.''"

text \<open>The two values of \<^verbatim>\<open>data_context\<close> in \<^verbatim>\<open>analyze\<close>.\<close>

definition no_data_note :: string where
  "no_data_note =
     ''\<newline>Note: No experimental data available. Provide theoretical analysis.''"

definition data_context :: "investigation \<Rightarrow> string" where
  "data_context r =
     (let experimental_data = r Experimental_data
      in if truthy experimental_data
         then ''\<newline>Experimental Results:\<newline>'' @ py_str experimental_data
         else no_data_note)"

definition analyze_prompt_head :: "investigation \<Rightarrow> string" where
  "analyze_prompt_head r =
     ''Analyze the experimental approach and draw conclusions.\<newline>'' @
     ''\<newline>'' @
     ''Question: \<newline>'' @
     py_str (r Question) @
     ''\<newline>'' @
     ''\<newline>'' @
     ''Hypothesis: \<newline>'' @
     py_str (r Hypothesis) @
     ''\<newline>'' @
     ''\<newline>'' @
     ''Predictions:\<newline>'' @
     py_str (r Predictions) @
     ''\<newline>'' @
     ''\<newline>'' @
     ''Experimental Design:\<newline>'' @
     py_str (r Experiments) @
     ''\<newline>''"

definition analyze_prompt_tail :: string where
  "analyze_prompt_tail =
     ''\<newline>'' @
     ''\<newline>'' @
     ''Provide:\<newline>'' @
     ''1. Analysis of how the experiments would test the hypothesis\<newline>'' @
     ''2. What results would support vs. refute the hypothesis\<newline>'' @
     ''3. Potential limitations or sources of error\<newline>'' @
     ''4. Suggestions for follow-up investigations''"

definition analyze_prompt :: "investigation \<Rightarrow> string" where
  "analyze_prompt r = analyze_prompt_head r @ data_context r @ analyze_prompt_tail"

definition conclude_prompt :: "investigation \<Rightarrow> string" where
  "conclude_prompt r =
     ''Synthesize the entire scientific investigation into a conclusion.\<newline>'' @
     ''\<newline>'' @
     ''Question: \<newline>'' @
     py_str (r Question) @
     ''\<newline>'' @
     ''\<newline>'' @
     ''Hypothesis: \<newline>'' @
     py_str (r Hypothesis) @
     ''\<newline>'' @
     ''\<newline>'' @
     ''Analysis: \<newline>'' @
     py_str (r Analysis) @
     ''\<newline>'' @
     ''\<newline>'' @
     ''Provide:\<newline>'' @
     ''1. Whether the hypothesis is supported, refuted, or requires modification\<newline>'' @
     ''2. Key findings and insights\<newline>'' @
     ''3. Implications of the results\<newline>'' @
     ''4. Next steps for further research\<newline>'' @
     ''\<newline>'' @
     ''Be clear and concise.''"

section \<open>The stages\<close>

text \<open>
  Each method builds its prompt from the record, makes one call and stores what it reads
  from the answer, unchecked: a text, or \<^verbatim>\<open>None\<close> for a chat message without
  content. \<^verbatim>\<open>observe\<close> stores the question before its call; no method catches an
  exception.
\<close>

definition observe :: "string \<Rightarrow> string action" where
  "observe question s =
     (let s1 = s\<lparr>results := (results s)(Question := Some question)\<rparr>
      in case create_response (Responses_create (model s1) [''web_search''] (observe_prompt question)) s1 of
           (Inl e, s2) \<Rightarrow> (Inl e, s2)
         | (Inr output_text, s2) \<Rightarrow>
             (Inr output_text,
              s2\<lparr>results := (results s2)(Observations := Some output_text)\<rparr>))"

definition hypothesize :: "string option action" where
  "hypothesize s =
     (case create_chat_completion (Chat_completions_create (model s)
                     [(''user'', hypothesize_prompt (results s))]) s of
        (Inl e, s2) \<Rightarrow> (Inl e, s2)
      | (Inr content, s2) \<Rightarrow>
          (Inr content, s2\<lparr>results := (results s2)(Hypothesis := content)\<rparr>))"

definition predict :: "string option action" where
  "predict s =
     (case create_chat_completion (Chat_completions_create (model s)
                     [(''user'', predict_prompt (results s))]) s of
        (Inl e, s2) \<Rightarrow> (Inl e, s2)
      | (Inr content, s2) \<Rightarrow>
          (Inr content, s2\<lparr>results := (results s2)(Predictions := content)\<rparr>))"

definition "experiment" :: "string option action" where
  "experiment s =
     (case create_chat_completion (Chat_completions_create (model s)
                     [(''user'', experiment_prompt (results s))]) s of
        (Inl e, s2) \<Rightarrow> (Inl e, s2)
      | (Inr content, s2) \<Rightarrow>
          (Inr content, s2\<lparr>results := (results s2)(Experiments := content)\<rparr>))"

definition generate_experimental_data :: "string option action" where
  "generate_experimental_data s =
     (case create_chat_completion (Chat_completions_create (model s)
                     [(''user'', generate_experimental_data_prompt (results s))]) s of
        (Inl e, s2) \<Rightarrow> (Inl e, s2)
      | (Inr content, s2) \<Rightarrow>
          (Inr content, s2\<lparr>results := (results s2)(Experimental_data := content)\<rparr>))"

definition analyze :: "string option action" where
  "analyze s =
     (case create_chat_completion (Chat_completions_create (model s)
                     [(''user'', analyze_prompt (results s))]) s of
        (Inl e, s2) \<Rightarrow> (Inl e, s2)
      | (Inr content, s2) \<Rightarrow>
          (Inr content, s2\<lparr>results := (results s2)(Analysis := content)\<rparr>))"

definition conclude :: "string option action" where
  "conclude s =
     (case create_chat_completion (Chat_completions_create (model s)
                     [(''user'', conclude_prompt (results s))]) s of
        (Inl e, s2) \<Rightarrow> (Inl e, s2)
      | (Inr content, s2) \<Rightarrow>
          (Inr content, s2\<lparr>results := (results s2)(Conclusion := content)\<rparr>))"

section \<open>The run\<close>

definition run_full_method :: "string \<Rightarrow> bool \<Rightarrow> investigation action" where
  "run_full_method question generate_data =
     bind_act (log_and_print (''Question: '' @ question @ ''\<newline>'')) (\<lambda>_.
     bind_act (log_and_print ''Step 1: Gathering observations...'') (\<lambda>_.
     bind_act (observe question) (\<lambda>observations.
     bind_act (log_and_print (''\<newline>'' @ observations @ ''\<newline>'')) (\<lambda>_.
     bind_act (log_and_print (replicate 80 CHR ''-'')) (\<lambda>_.
     bind_act (log_and_print ''\<newline>Step 2: Formulating hypothesis...'') (\<lambda>_.
     bind_act hypothesize (\<lambda>hypothesis.
     bind_act (log_and_print (''\<newline>'' @ py_str hypothesis @ ''\<newline>'')) (\<lambda>_.
     bind_act (log_and_print (replicate 80 CHR ''-'')) (\<lambda>_.
     bind_act (log_and_print ''\<newline>Step 3: Generating predictions...'') (\<lambda>_.
     bind_act predict (\<lambda>predictions.
     bind_act (log_and_print (''\<newline>'' @ py_str predictions @ ''\<newline>'')) (\<lambda>_.
     bind_act (log_and_print (replicate 80 CHR ''-'')) (\<lambda>_.
     bind_act (log_and_print ''\<newline>Step 4: Designing experiments...'') (\<lambda>_.
     bind_act experiment (\<lambda>experiments.
     bind_act (log_and_print (''\<newline>'' @ py_str experiments @ ''\<newline>'')) (\<lambda>_.
     bind_act (log_and_print (replicate 80 CHR ''-'')) (\<lambda>_.
     bind_act
       (if generate_data
        then
          bind_act (log_and_print ''\<newline>Step 4b: Generating experimental data...'') (\<lambda>_.
          bind_act generate_experimental_data (\<lambda>experimental_data.
          bind_act (log_and_print (''\<newline>'' @ py_str experimental_data @ ''\<newline>'')) (\<lambda>_.
          log_and_print (replicate 80 CHR ''-''))))
        else pure_act ()) (\<lambda>_.
     bind_act (log_and_print ''\<newline>Step 5: Analyzing results...'') (\<lambda>_.
     bind_act analyze (\<lambda>analysis.
     bind_act (log_and_print (''\<newline>'' @ py_str analysis @ ''\<newline>'')) (\<lambda>_.
     bind_act (log_and_print (replicate 80 CHR ''-'')) (\<lambda>_.
     bind_act (log_and_print ''\<newline>Step 6: Drawing conclusions...'') (\<lambda>_.
     bind_act conclude (\<lambda>conclusion.
     bind_act (log_and_print (''\<newline>'' @ py_str conclusion @ ''\<newline>'')) (\<lambda>_.
     bind_act (log_and_print (replicate 80 CHR ''='')) (\<lambda>_.
     (\<lambda>s. (Inr (results s), s))))))))))))))))))))))))))))"

section \<open>Construction, export and the command line\<close>

text \<open>
  What the program reads from outside: the process environment as it is when the module
  is loaded, the effect of \<^verbatim>\<open>load_dotenv()\<close> on an environment, the constructor of
  the client library (it may raise, or give a client to the service) and the time stamp
  of \<^verbatim>\<open>datetime.now()\<close>. These are parameters: none of them is code of the program.
\<close>

record world =
  environ :: "string \<Rightarrow> string option"
  load_dotenv :: "(string \<Rightarrow> string option) \<Rightarrow> (string \<Rightarrow> string option)"
  OpenAI :: "string option \<Rightarrow> error + openai_client"
  now :: string

text \<open>\<^verbatim>\<open>os.getenv('SCIENTIFIC_METHOD_QUESTION', "Does rapamycin increase lifespan?")\<close>\<close>

definition env_question :: "world \<Rightarrow> string" where
  "env_question w =
     (case environ w ''SCIENTIFIC_METHOD_QUESTION'' of
        None \<Rightarrow> ''Does rapamycin increase lifespan?''
      | Some v \<Rightarrow> v)"

text \<open>
  \<^verbatim>\<open>__init__(api_key, log_file)\<close> in the environment \<open>env\<close>. The client is built
  before the log file is opened; nothing checks that a key was found. \<open>new_object\<close> is
  the object once the client and the name of the log file are known: an empty record, a
  log file holding its title, no request made.
\<close>

definition new_object :: "openai_client \<Rightarrow> string \<Rightarrow> scientific_method" where
  "new_object c name =
     \<lparr>client = c,
      model = ''gpt-5'',
      log_file = name,
      results = (\<lambda>_. None),
      log_contents = [''=== Scientific Method Log ===\<newline>\<newline>''],
      calls = []\<rparr>"

definition init ::
  "world \<Rightarrow> (string \<Rightarrow> string option) \<Rightarrow> string option \<Rightarrow> string option
     \<Rightarrow> error + scientific_method" where
  "init w env api_key log_file_arg =
     (let env' = load_dotenv w env;
          api_key' = (case api_key of None \<Rightarrow> env' ''OPENAI_API_KEY'' | Some k \<Rightarrow> Some k)
      in case OpenAI w api_key' of
           Inl e \<Rightarrow> Inl e
         | Inr c \<Rightarrow>
             Inr (new_object c
                    (case log_file_arg of
                       None \<Rightarrow> ''scientific_method_'' @ now w @ ''.log''
                     | Some f \<Rightarrow> f)))"

text \<open>
  \<^verbatim>\<open>json.dump(self.results, f, indent=2)\<close> writes one object with the eight keys in
  the order of the dictionary; the document is kept structured, not as text.
\<close>

datatype json = JNull | JString string

definition to_json :: "string option \<Rightarrow> json" where
  "to_json v = (case v of None \<Rightarrow> JNull | Some t \<Rightarrow> JString t)"

definition json_dump :: "investigation \<Rightarrow> (string \<times> json) list" where
  "json_dump r = map (\<lambda>k. (key_name k, to_json (r k))) pipeline_keys"

definition save_results ::
  "string \<Rightarrow> scientific_method \<Rightarrow> (string \<times> json) list \<times> scientific_method" where
  "save_results filename s =
     (json_dump (results s),
      snd (log_and_print (''\<newline>Results saved to '' @ filename) s))"

record args =
  arg_question :: "string option"
  arg_question_flag :: "string option"
  arg_generate_data :: bool

definition usage_message :: string where
  "usage_message =
     ''Question is required. Provide it as:\<newline>'' @
     ''  - Command-line argument: python scientific_method.py 'Your question?'\<newline>'' @
     ''  - Flag: python scientific_method.py --question 'Your question?'\<newline>'' @
     ''  - Environment variable: SCIENTIFIC_METHOD_QUESTION='Your question?'' @ [CHR 0x27]"

text \<open>
  How \<^verbatim>\<open>main\<close> ends: \<^verbatim>\<open>parser.error\<close> (usage and message, exit status 2), an
  exception that nothing catches (with the object, when it was built), or the end of
  the run with the object and the exported document.
\<close>

datatype outcome =
  Usage_error string
  | Uncaught error "scientific_method option"
  | Finished scientific_method "(string \<times> json) list"

definition resolve_question :: "world \<Rightarrow> args \<Rightarrow> string option" where
  "resolve_question w a =
     py_or (py_or (arg_question_flag a) (arg_question a)) (Some (env_question w))"

text \<open>\<^verbatim>\<open>not question\<close> holds of \<^verbatim>\<open>None\<close> and of the empty string.\<close>

definition main :: "world \<Rightarrow> args \<Rightarrow> outcome" where
  "main w a =
     (let env1 = load_dotenv w (environ w)
      in case resolve_question w a of
           None \<Rightarrow> Usage_error usage_message
         | Some question \<Rightarrow>
             if question = [] then Usage_error usage_message
             else
               (case init w env1 None None of
                  Inl e \<Rightarrow> Uncaught e None
                | Inr sm \<Rightarrow>
                    (case run_full_method question (arg_generate_data a) sm of
                       (Inl e, sm') \<Rightarrow> Uncaught e (Some sm')
                     | (Inr r, sm') \<Rightarrow>
                         (case save_results ''scientific_method_results.json'' sm' of
                            (doc, sm'') \<Rightarrow> Finished sm'' doc))))"

text \<open>The requests that a run of \<^verbatim>\<open>main\<close> has sent to the service.\<close>

fun calls_of :: "outcome \<Rightarrow> request list" where
  "calls_of (Usage_error m) = []"
| "calls_of (Uncaught e None) = []"
| "calls_of (Uncaught e (Some s)) = calls s"
| "calls_of (Finished s doc) = calls s"

section \<open>The run as a list of stages\<close>

text \<open>
  \<^verbatim>\<open>run_full_method\<close> repeats one pattern for each stage: a header, the stage's
  method, its answer as an f-string writes it, a rule. The pattern is named here and the run is shown equal to
  the list of its stages (\<open>run_full_method_stages\<close>), so that facts about a run are
  proved by induction on that list.
\<close>

datatype stage =
  Observe | Hypothesize | Predict | Experiment | Generate_data | Analyze | Conclude

fun stage_key :: "stage \<Rightarrow> key" where
  "stage_key Observe = Observations"
| "stage_key Hypothesize = Hypothesis"
| "stage_key Predict = Predictions"
| "stage_key Experiment = Experiments"
| "stage_key Generate_data = Experimental_data"
| "stage_key Analyze = Analysis"
| "stage_key Conclude = Conclusion"

fun stage_header :: "stage \<Rightarrow> string" where
  "stage_header Observe = ''Step 1: Gathering observations...''"
| "stage_header Hypothesize = ''\<newline>Step 2: Formulating hypothesis...''"
| "stage_header Predict = ''\<newline>Step 3: Generating predictions...''"
| "stage_header Experiment = ''\<newline>Step 4: Designing experiments...''"
| "stage_header Generate_data = ''\<newline>Step 4b: Generating experimental data...''"
| "stage_header Analyze = ''\<newline>Step 5: Analyzing results...''"
| "stage_header Conclude = ''\<newline>Step 6: Drawing conclusions...''"

fun stage_rule :: "stage \<Rightarrow> string" where
  "stage_rule Conclude = replicate 80 CHR ''=''"
| "stage_rule st = replicate 80 CHR ''-''"

fun stage_act :: "string \<Rightarrow> stage \<Rightarrow> string option action" where
  "stage_act question Observe =
     bind_act (observe question) (\<lambda>observations. pure_act (Some observations))"
| "stage_act question Hypothesize = hypothesize"
| "stage_act question Predict = predict"
| "stage_act question Experiment = experiment"
| "stage_act question Generate_data = generate_experimental_data"
| "stage_act question Analyze = analyze"
| "stage_act question Conclude = conclude"

definition run_stage :: "string \<Rightarrow> stage \<Rightarrow> unit action" where
  "run_stage question st =
     bind_act (log_and_print (stage_header st)) (\<lambda>_.
     bind_act (stage_act question st) (\<lambda>answer.
     bind_act (log_and_print (''\<newline>'' @ py_str answer @ ''\<newline>'')) (\<lambda>_.
     log_and_print (stage_rule st))))"

fun run_stages :: "string \<Rightarrow> stage list \<Rightarrow> unit action" where
  "run_stages question [] = pure_act ()"
| "run_stages question (st # sts) =
     bind_act (run_stage question st) (\<lambda>_. run_stages question sts)"

definition stages :: "bool \<Rightarrow> stage list" where
  "stages generate_data =
     [Observe, Hypothesize, Predict, Experiment] @
     (if generate_data then [Generate_data] else []) @
     [Analyze, Conclude]"

text \<open>
  The request of a stage in a state, and the state in which the call is made
  (\<^verbatim>\<open>observe\<close> has stored the question by then).
\<close>

fun stage_prompt :: "string \<Rightarrow> stage \<Rightarrow> investigation \<Rightarrow> string" where
  "stage_prompt question Observe r = observe_prompt question"
| "stage_prompt question Hypothesize r = hypothesize_prompt r"
| "stage_prompt question Predict r = predict_prompt r"
| "stage_prompt question Experiment r = experiment_prompt r"
| "stage_prompt question Generate_data r = generate_experimental_data_prompt r"
| "stage_prompt question Analyze r = analyze_prompt r"
| "stage_prompt question Conclude r = conclude_prompt r"

fun stage_request :: "string \<Rightarrow> stage \<Rightarrow> scientific_method \<Rightarrow> request" where
  "stage_request question Observe s =
     Responses_create (model s) [''web_search''] (observe_prompt question)"
| "stage_request question st s =
     Chat_completions_create (model s) [(''user'', stage_prompt question st (results s))]"

fun before_call :: "string \<Rightarrow> stage \<Rightarrow> scientific_method \<Rightarrow> scientific_method" where
  "before_call question Observe s = s\<lparr>results := (results s)(Question := Some question)\<rparr>"
| "before_call question st s = s"

text \<open>The entries of the log that are stage headers, in the order written.\<close>

definition stage_headers :: "string list" where
  "stage_headers =
     map stage_header
       [Observe, Hypothesize, Predict, Experiment, Generate_data, Analyze, Conclude]"

definition headers_of :: "string list \<Rightarrow> string list" where
  "headers_of entries =
     filter (\<lambda>e. e \<in> set (map (\<lambda>h. h @ ''\<newline>'') stage_headers)) entries"

section \<open>The order of the keys\<close>

text \<open>
  The keys are populated in pipeline order when no key is absent while a later key is
  populated, \<open>experimental_data\<close> excepted when the generation of data is disabled.
\<close>

fun in_order :: "bool \<Rightarrow> investigation \<Rightarrow> key list \<Rightarrow> bool" where
  "in_order generate_data r [] = True"
| "in_order generate_data r (k # ks) =
     ((r k \<noteq> None \<or> (k = Experimental_data \<and> \<not> generate_data) \<or>
       list_all (\<lambda>k'. r k' = None) ks)
      \<and> in_order generate_data r ks)"

text \<open>
  A client whose chat endpoint answers every request with a text, never with a message
  without content.
\<close>

definition answers_texts :: "openai_client \<Rightarrow> bool" where
  "answers_texts c = (\<forall>history req. chat_completions_create c history req \<noteq> Inr None)"

text \<open>The keys of an exported document whose value is null, and those with a text.\<close>

definition null_keys :: "(string \<times> json) list \<Rightarrow> string list" where
  "null_keys doc = map fst (filter (\<lambda>(k, v). v = JNull) doc)"

definition text_keys :: "(string \<times> json) list \<Rightarrow> string list" where
  "text_keys doc = map fst (filter (\<lambda>(k, v). v \<noteq> JNull) doc)"

text \<open>
  Whether \<^verbatim>\<open>main\<close> reached its end, the record of the object it left (empty when no
  object was built) and the document it exported (empty when it exported none).
\<close>

fun reached_end :: "outcome \<Rightarrow> bool" where
  "reached_end (Finished s doc) = True"
| "reached_end (Usage_error m) = False"
| "reached_end (Uncaught e so) = False"

fun record_of :: "outcome \<Rightarrow> investigation" where
  "record_of (Finished s doc) = results s"
| "record_of (Uncaught e (Some s)) = results s"
| "record_of (Uncaught e None) = (\<lambda>_. None)"
| "record_of (Usage_error m) = (\<lambda>_. None)"

fun export_of :: "outcome \<Rightarrow> (string \<times> json) list" where
  "export_of (Finished s doc) = doc"
| "export_of (Usage_error m) = []"
| "export_of (Uncaught e so) = []"

section \<open>Example inputs\<close>

text \<open>A service that answers every request with the same text.\<close>

definition ok_service :: openai_client where
  "ok_service =
     \<lparr>responses_create = (\<lambda>history req. Inr ''ok''),
      chat_completions_create = (\<lambda>history req. Inr (Some ''ok''))\<rparr>"

text \<open>The object that \<^verbatim>\<open>main\<close> builds when the constructor gives \<open>ok_service\<close>.\<close>

definition example_object :: scientific_method where
  "example_object = new_object ok_service ''run.log''"

text \<open>
  A service whose every call raises, one whose third call raises, and one whose second
  answer is a chat message without content.
\<close>

definition failing_service :: openai_client where
  "failing_service =
     \<lparr>responses_create = (\<lambda>history req. Inl (Raised ''timeout'')),
      chat_completions_create = (\<lambda>history req. Inl (Raised ''timeout''))\<rparr>"

definition flaky_service :: openai_client where
  "flaky_service =
     \<lparr>responses_create = (\<lambda>history req. Inr ''ok''),
      chat_completions_create =
        (\<lambda>history req.
           if length history = 2 then Inl (Raised ''timeout'') else Inr (Some ''ok''))\<rparr>"

definition no_content_service :: openai_client where
  "no_content_service =
     \<lparr>responses_create = (\<lambda>history req. Inr ''ok''),
      chat_completions_create =
        (\<lambda>history req. if length history = 1 then Inr None else Inr (Some ''ok''))\<rparr>"

text \<open>
  An environment with a credential and no question, no \<^verbatim>\<open>.env\<close> file, and a
  constructor that raises without a key, as the client library does; the same with a
  constructor that gives the service whose second answer has no content; and the
  command line \<^verbatim>\<open>--no-data\<close>.
\<close>

definition example_world :: world where
  "example_world =
     \<lparr>environ = (\<lambda>_. None)(''OPENAI_API_KEY'' := Some ''sk-test''),
      load_dotenv = (\<lambda>env. env),
      OpenAI = (\<lambda>k. case k of
                  None \<Rightarrow> Inl (Raised ''The api_key client option must be set'')
                | Some _ \<Rightarrow> Inr ok_service),
      now = ''20250101_120000''\<rparr>"

definition no_content_world :: world where
  "no_content_world = example_world\<lparr>OpenAI := (\<lambda>k. Inr no_content_service)\<rparr>"

definition no_data_args :: args where
  "no_data_args =
     \<lparr>arg_question = None, arg_question_flag = None, arg_generate_data = False\<rparr>"


text \<open>
  The example environment with the question variable set to the empty text, set to a
  question, and without the credential; command lines that give no question, a flag and
  a positional argument, a positional argument alone, an empty flag, and an empty flag
  with an empty positional argument.
\<close>

definition empty_question_world :: world where
  "empty_question_world =
     example_world\<lparr>environ := (environ example_world)(''SCIENTIFIC_METHOD_QUESTION'' := Some [])\<rparr>"

definition question_world :: world where
  "question_world =
     example_world\<lparr>environ :=
       (environ example_world)(''SCIENTIFIC_METHOD_QUESTION'' := Some ''Why is the sky blue?'')\<rparr>"

definition no_key_world :: world where
  "no_key_world = example_world\<lparr>environ := (\<lambda>_. None)\<rparr>"

definition no_args :: args where
  "no_args = \<lparr>arg_question = None, arg_question_flag = None, arg_generate_data = True\<rparr>"

definition both_args :: args where
  "both_args =
     \<lparr>arg_question = Some ''How does photosynthesis work?'',
      arg_question_flag = Some ''What causes earthquakes?'',
      arg_generate_data = True\<rparr>"

definition positional_args :: args where
  "positional_args =
     \<lparr>arg_question = Some ''How does photosynthesis work?'',
      arg_question_flag = None,
      arg_generate_data = True\<rparr>"

definition empty_flag_args :: args where
  "empty_flag_args =
     \<lparr>arg_question = Some ''How does photosynthesis work?'',
      arg_question_flag = Some [],
      arg_generate_data = True\<rparr>"

definition empty_args :: args where
  "empty_args =
     \<lparr>arg_question = Some [], arg_question_flag = Some [], arg_generate_data = True\<rparr>"

section \<open>Basic facts\<close>

lemma bind_act_assoc:
  "bind_act (bind_act f g) h = bind_act f (\<lambda>a. bind_act (g a) h)"
  by (rule ext) (simp add: bind_act_def split: prod.splits sum.splits)

lemma bind_act_pure: "bind_act (pure_act a) g = g a"
  by (rule ext) (simp add: bind_act_def pure_act_def)

lemma py_str_Some: "py_str (Some t) = t"
  by (simp add: py_str_def)

lemma run_full_method_stages:
  "run_full_method question generate_data =
     bind_act (log_and_print (''Question: '' @ question @ ''\<newline>'')) (\<lambda>_.
     bind_act (run_stages question (stages generate_data)) (\<lambda>_.
     (\<lambda>s. (Inr (results s), s))))"
  by (simp add: run_full_method_def stages_def run_stage_def bind_act_assoc bind_act_pure
      py_str_Some)

lemma stage_act_eq:
  "stage_act question st s =
     (let s1 = before_call question st s; req = stage_request question st s
      in case answer_of (client s) (calls s) req of
           Inl e \<Rightarrow> (Inl e, s1\<lparr>calls := calls s @ [req]\<rparr>)
         | Inr answer \<Rightarrow>
             (Inr answer,
              s1\<lparr>calls := calls s @ [req],
                 results := (results s1)(stage_key st := answer)\<rparr>))"
  by (cases st)
     (simp_all add: observe_def hypothesize_def predict_def experiment_def
        generate_experimental_data_def analyze_def conclude_def create_response_def
        create_chat_completion_def answer_of_def bind_act_def pure_act_def Let_def
        split: sum.splits)

lemma run_stage_eq:
  "run_stage question st s =
     (let s1 = before_call question st s;
          req = stage_request question st s;
          s2 = s1\<lparr>log_contents := log_contents s @ [stage_header st @ ''\<newline>''],
                  calls := calls s @ [req]\<rparr>
      in case answer_of (client s) (calls s) req of
           Inl e \<Rightarrow> (Inl e, s2)
         | Inr answer \<Rightarrow>
             (Inr (),
              s2\<lparr>results := (results s1)(stage_key st := answer),
                 log_contents := log_contents s @
                   [stage_header st @ ''\<newline>'',
                    (''\<newline>'' @ py_str answer @ ''\<newline>'') @ ''\<newline>'',
                    stage_rule st @ ''\<newline>'']\<rparr>))"
proof -
  have pre: "client (before_call question st s) = client s"
    "calls (before_call question st s) = calls s"
    "log_contents (before_call question st s) = log_contents s"
    by (cases st; simp)+
  have req: "stage_request question st (s\<lparr>log_contents := l\<rparr>) = stage_request question st s"
    for l
    by (cases st) simp_all
  have bc: "before_call question st (s\<lparr>log_contents := l\<rparr>) =
      (before_call question st s)\<lparr>log_contents := l\<rparr>" for l
    by (cases st) simp_all
  show ?thesis
    by (simp add: run_stage_def bind_act_def log_and_print_def stage_act_eq Let_def pre req bc
        split: sum.splits)
qed

section \<open>Observe and the keys of the record\<close>

text \<open>
  C1, as stated: \<^verbatim>\<open>observe\<close> on a freshly created record populates exactly the
  \<open>observations\<close> key, every other key keeping its value. On the fresh object with the
  question \<^verbatim>\<open>Why?\<close> the \<open>question\<close> key is absent before the call and holds the
  question after it.
\<close>

theorem observe_question_counterexample:
  "results (new_object ok_service ''run.log'') Question = None \<and>
   results (snd (observe ''Why?'' (new_object ok_service ''run.log''))) Question = Some ''Why?''"
  by (simp add: observe_def create_response_def new_object_def ok_service_def)

text \<open>
  C1, amended: for every question and every record, \<^verbatim>\<open>observe\<close> returns what the
  service answers to its one request; afterwards the \<open>question\<close> key holds the
  question, the \<open>observations\<close> key holds the answer when the call succeeded (and its
  old value when the call raised), and every other key has kept its value.
\<close>

theorem observe_populates:
  "fst (observe question s) =
     responses_create (client s) (calls s)
       (Responses_create (model s) [''web_search''] (observe_prompt question)) \<and>
   (\<forall>k. results (snd (observe question s)) k =
      (if k = Question then Some question
       else if k = Observations
         then (case fst (observe question s) of
                 Inl e \<Rightarrow> results s Observations
               | Inr answer \<Rightarrow> Some answer)
       else results s k))"
  by (simp add: observe_def create_response_def Let_def split: sum.splits)

section \<open>Stage headers in the log\<close>

lemma stage_header_last: "last (stage_header st) = CHR ''.''"
  by (cases st) simp_all

lemma stage_header_length: "length (stage_header st) < 80"
  by (cases st) simp_all

lemma stage_rule_length: "length (stage_rule st) = 80"
  by (cases st) simp_all

lemma set_stage_headers: "set stage_headers = range stage_header"
proof -
  have "st \<in> set [Observe, Hypothesize, Predict, Experiment, Generate_data, Analyze, Conclude]"
    for st
    by (cases st) simp_all
  then have "set [Observe, Hypothesize, Predict, Experiment, Generate_data, Analyze, Conclude] = UNIV"
    by blast
  then show ?thesis
    unfolding stage_headers_def set_map by (rule arg_cong)
qed

lemma is_header_entry:
  "e \<in> set (map (\<lambda>h. h @ ''\<newline>'') stage_headers) \<longleftrightarrow> (\<exists>st. e = stage_header st @ ''\<newline>'')"
  by (auto simp: set_stage_headers)

lemma headers_of_append: "headers_of (xs @ ys) = headers_of xs @ headers_of ys"
  by (simp add: headers_of_def)

lemma headers_of_header: "headers_of [stage_header st @ ''\<newline>''] = [stage_header st @ ''\<newline>'']"
  unfolding headers_of_def filter.simps is_header_entry by auto

lemma headers_of_text: "headers_of [(p @ t @ ''\<newline>'') @ ''\<newline>''] = []"
proof -
  have "p @ t @ ''\<newline>'' \<noteq> stage_header st" for st
  proof
    assume "p @ t @ ''\<newline>'' = stage_header st"
    then have "last (p @ t @ ''\<newline>'') = last (stage_header st)" by simp
    then show False by (simp add: stage_header_last)
  qed
  then show ?thesis
    unfolding headers_of_def filter.simps is_header_entry by auto
qed

lemma headers_of_rule: "headers_of [stage_rule st @ ''\<newline>''] = []"
proof -
  have "stage_rule st \<noteq> stage_header st'" for st'
    using stage_header_length [of st'] stage_rule_length [of st] by auto
  then show ?thesis
    unfolding headers_of_def filter.simps is_header_entry by auto
qed

lemma run_stages_append:
  "run_stages question (xs @ ys) =
     bind_act (run_stages question xs) (\<lambda>_. run_stages question ys)"
  by (induction xs) (simp_all add: bind_act_pure bind_act_assoc)

lemma before_call_fields:
  "client (before_call question st s) = client s"
  "model (before_call question st s) = model s"
  "log_file (before_call question st s) = log_file s"
  "calls (before_call question st s) = calls s"
  "log_contents (before_call question st s) = log_contents s"
  by (cases st; simp)+

lemma run_stage_fields:
  assumes "run_stage question st s = (res, s')"
  shows "client s' = client s" and "model s' = model s"
    and "calls s' = calls s @ [stage_request question st s]"
  using assms
  by (auto simp: run_stage_eq Let_def before_call_fields split: sum.splits)

lemma run_stages_fields:
  "run_stages question sts s = (res, s') \<Longrightarrow> client s' = client s \<and> model s' = model s"
proof (induction sts arbitrary: s)
  case Nil
  then show ?case by (simp add: pure_act_def)
next
  case (Cons st sts)
  obtain res1 s1 where r1: "run_stage question st s = (res1, s1)"
    by (cases "run_stage question st s")
  show ?case
  proof (cases res1)
    case (Inl e)
    with Cons.prems r1 have "s' = s1" by (simp add: bind_act_def)
    with r1 show ?thesis by (simp add: run_stage_fields)
  next
    case (Inr u)
    with Cons.prems r1 have "run_stages question sts s1 = (res, s')"
      by (simp add: bind_act_def)
    from Cons.IH [OF this] r1 show ?thesis by (simp add: run_stage_fields)
  qed
qed

section \<open>Runs of stages\<close>

lemma run_stage_Inr:
  assumes "run_stage question st s = (Inr u, s')"
  shows "\<exists>answer. answer_of (client s) (calls s) (stage_request question st s) = Inr answer \<and>
     results s' = (results (before_call question st s))(stage_key st := answer) \<and>
     log_contents s' = log_contents s @
       [stage_header st @ ''\<newline>'',
        (''\<newline>'' @ py_str answer @ ''\<newline>'') @ ''\<newline>'',
        stage_rule st @ ''\<newline>'']"
  using assms by (auto simp: run_stage_eq Let_def split: sum.splits)

lemma run_stage_Inl:
  assumes "run_stage question st s = (Inl e, s')"
  shows "answer_of (client s) (calls s) (stage_request question st s) = Inl e"
    and "s' = (before_call question st s)
           \<lparr>log_contents := log_contents s @ [stage_header st @ ''\<newline>''],
            calls := calls s @ [stage_request question st s]\<rparr>"
  using assms by (auto simp: run_stage_eq Let_def split: sum.splits)

lemma run_stage_fails:
  assumes "answer_of (client s) (calls s) (stage_request question st s) = Inl e"
  shows "run_stage question st s =
     (Inl e, (before_call question st s)
           \<lparr>log_contents := log_contents s @ [stage_header st @ ''\<newline>''],
            calls := calls s @ [stage_request question st s]\<rparr>)"
  using assms by (simp add: run_stage_eq Let_def)

lemma before_call_results:
  "results (before_call question st s) k =
     (if st = Observe \<and> k = Question then Some question else results s k)"
  by (cases st) simp_all

lemma run_stage_results:
  assumes "run_stage question st s = (res, s')"
  shows "results s' k =
     (if st = Observe \<and> k = Question then Some question
      else if k = stage_key st
        then (case res of Inl e \<Rightarrow> results s k | Inr u \<Rightarrow> results s' k)
      else results s k)"
  using assms
  by (cases st)
     (auto simp: run_stage_eq Let_def split: sum.splits)

lemma answer_of_text:
  assumes "answers_texts c" and "answer_of c history req = Inr answer"
  shows "answer \<noteq> None"
proof (cases req)
  case (Responses_create m tools inp)
  with assms(2) show ?thesis by (auto simp: answer_of_def split: sum.splits)
next
  case (Chat_completions_create m messages)
  with assms(2) have "chat_completions_create c history req = Inr answer"
    by (simp add: answer_of_def)
  moreover from assms(1) have "chat_completions_create c history req \<noteq> Inr None"
    by (simp add: answers_texts_def)
  ultimately show ?thesis by auto
qed

lemma run_stage_keeps:
  assumes "run_stage question st s = (res, s')" and "results s k \<noteq> None"
    and "answers_texts (client s)"
  shows "results s' k \<noteq> None"
proof (cases res)
  case (Inl e)
  with assms(1) have "s' = (before_call question st s)
           \<lparr>log_contents := log_contents s @ [stage_header st @ ''\<newline>''],
            calls := calls s @ [stage_request question st s]\<rparr>"
    by (simp add: run_stage_Inl)
  with assms(2) show ?thesis by (simp add: before_call_results)
next
  case (Inr u)
  with assms(1) run_stage_Inr [of question st s u s'] obtain answer where
    a: "answer_of (client s) (calls s) (stage_request question st s) = Inr answer"
    and r: "results s' = (results (before_call question st s))(stage_key st := answer)"
    by auto
  from answer_of_text [OF assms(3) a] have "answer \<noteq> None" .
  with r assms(2) show ?thesis by (simp add: before_call_results)
qed

lemma run_stage_sets:
  assumes "run_stage question st s = (Inr u, s')" and "answers_texts (client s)"
  shows "results s' (stage_key st) \<noteq> None"
proof -
  from run_stage_Inr [OF assms(1)] obtain answer where
    a: "answer_of (client s) (calls s) (stage_request question st s) = Inr answer"
    and r: "results s' = (results (before_call question st s))(stage_key st := answer)"
    by auto
  from answer_of_text [OF assms(2) a] r show ?thesis by simp
qed

lemma run_stages_cases:
  assumes "run_stages question (st # sts) s = (res, s')"
  obtains e where "run_stage question st s = (Inl e, s')" and "res = Inl e"
  | s1 where "run_stage question st s = (Inr (), s1)"
      and "run_stages question sts s1 = (res, s')"
proof (cases "run_stage question st s")
  case (Pair res1 s1)
  show ?thesis
  proof (cases res1)
    case (Inl e)
    with Pair assms have "run_stage question st s = (Inl e, s')" and "res = Inl e"
      by (auto simp: bind_act_def)
    then show ?thesis by (rule that(1))
  next
    case (Inr u)
    with Pair assms have "run_stage question st s = (Inr (), s1)"
      and "run_stages question sts s1 = (res, s')"
      by (auto simp: bind_act_def)
    then show ?thesis by (rule that(2))
  qed
qed

lemma run_stages_keeps:
  "run_stages question sts s = (res, s') \<Longrightarrow> results s k \<noteq> None \<Longrightarrow>
     answers_texts (client s) \<Longrightarrow> results s' k \<noteq> None"
proof (induction sts arbitrary: s)
  case Nil
  then show ?case by (simp add: pure_act_def)
next
  case (Cons st sts)
  from Cons.prems(1) show ?case
  proof (cases rule: run_stages_cases)
    case (1 e)
    from run_stage_keeps [OF 1(1) Cons.prems(2,3)] show ?thesis .
  next
    case (2 s1)
    from run_stage_keeps [OF 2(1) Cons.prems(2,3)] have "results s1 k \<noteq> None" .
    moreover have "answers_texts (client s1)"
      using run_stage_fields(1) [OF 2(1)] Cons.prems(3) by simp
    ultimately show ?thesis using Cons.IH [OF 2(2)] by blast
  qed
qed

lemma run_stages_frame:
  "run_stages question sts s = (res, s') \<Longrightarrow> k \<notin> stage_key ` set sts \<Longrightarrow>
     k \<noteq> Question \<or> Observe \<notin> set sts \<Longrightarrow> results s' k = results s k"
proof (induction sts arbitrary: s)
  case Nil
  then show ?case by (simp add: pure_act_def)
next
  case (Cons st sts)
  have step: "results s1 k = results s k" if "run_stage question st s = (r1, s1)" for r1 s1
    using run_stage_results [OF that, of k] Cons.prems(2,3) by auto
  from Cons.prems(1) show ?case
  proof (cases rule: run_stages_cases)
    case (1 e)
    then show ?thesis using step by simp
  next
    case (2 s1)
    have "results s' k = results s1 k"
      using Cons.IH [OF 2(2)] Cons.prems(2,3) by auto
    with step [OF 2(1)] show ?thesis by simp
  qed
qed

lemma run_stages_completed:
  "run_stages question sts s = (Inr u, s') \<Longrightarrow> st \<in> set sts \<Longrightarrow>
     answers_texts (client s) \<Longrightarrow> results s' (stage_key st) \<noteq> None"
proof (induction sts arbitrary: s)
  case Nil
  then show ?case by simp
next
  case (Cons a sts)
  from Cons.prems(1) show ?case
  proof (cases rule: run_stages_cases)
    case (1 e)
    then show ?thesis by simp
  next
    case (2 s1)
    have texts: "answers_texts (client s1)"
      using run_stage_fields(1) [OF 2(1)] Cons.prems(3) by simp
    show ?thesis
    proof (cases "st = a")
      case True
      have "results s1 (stage_key st) \<noteq> None"
        using run_stage_sets [OF 2(1) Cons.prems(3)] True by simp
      then show ?thesis
        using run_stages_keeps [OF 2(2) _ texts] by blast
    next
      case False
      with Cons.prems(2) have "st \<in> set sts" by simp
      from Cons.IH [OF 2(2) this texts] show ?thesis .
    qed
  qed
qed

lemma run_stages_question:
  "run_stages question sts s = (res, s') \<Longrightarrow> results s Question = Some question \<Longrightarrow>
     results s' Question = Some question"
proof (induction sts arbitrary: s)
  case Nil
  then show ?case by (simp add: pure_act_def)
next
  case (Cons st sts)
  have step: "results s1 Question = Some question"
    if "run_stage question st s = (r1, s1)" for r1 s1
    using run_stage_results [OF that, of Question] Cons.prems(2)
    by (cases st) (simp_all split: sum.splits)
  from Cons.prems(1) show ?case
  proof (cases rule: run_stages_cases)
    case (1 e)
    from step [OF 1(1)] show ?thesis .
  next
    case (2 s1)
    from 2(2) step [OF 2(1)] show ?thesis by (rule Cons.IH)
  qed
qed

lemma run_stages_headers:
  "run_stages question sts s = (Inr u, s') \<Longrightarrow>
     headers_of (log_contents s') =
       headers_of (log_contents s) @ map (\<lambda>st. stage_header st @ ''\<newline>'') sts"
proof (induction sts arbitrary: s)
  case Nil
  then show ?case by (simp add: pure_act_def)
next
  case (Cons st sts)
  from Cons.prems show ?case
  proof (cases rule: run_stages_cases)
    case (1 e)
    then show ?thesis by simp
  next
    case (2 s1)
    from run_stage_Inr [OF 2(1)] obtain answer where
      "log_contents s1 = log_contents s @
         [stage_header st @ ''\<newline>'',
          (''\<newline>'' @ py_str answer @ ''\<newline>'') @ ''\<newline>'',
          stage_rule st @ ''\<newline>'']"
      by blast
    then have "log_contents s1 = log_contents s @ [stage_header st @ ''\<newline>''] @
        [(''\<newline>'' @ py_str answer @ ''\<newline>'') @ ''\<newline>''] @
        [stage_rule st @ ''\<newline>'']"
      by simp
    then have "headers_of (log_contents s1) =
        headers_of (log_contents s) @ [stage_header st @ ''\<newline>'']"
      by (simp only: headers_of_append headers_of_header headers_of_text
          headers_of_rule append_Nil2)
    with Cons.IH [OF 2(2)] show ?thesis by simp
  qed
qed

lemma run_stages_total:
  "\<forall>h req. \<exists>t. answer_of (client s) h req = Inr t \<Longrightarrow>
     \<exists>s'. run_stages question sts s = (Inr (), s')"
proof (induction sts arbitrary: s)
  case Nil
  then show ?case by (simp add: pure_act_def)
next
  case (Cons st sts)
  from Cons.prems obtain t where
    t: "answer_of (client s) (calls s) (stage_request question st s) = Inr t"
    by blast
  then obtain s1 where s1: "run_stage question st s = (Inr (), s1)"
    by (simp add: run_stage_eq Let_def)
  then have "client s1 = client s" by (rule run_stage_fields)
  with Cons.prems have "\<forall>h req. \<exists>t. answer_of (client s1) h req = Inr t" by simp
  from Cons.IH [OF this] obtain s' where "run_stages question sts s1 = (Inr (), s')" by blast
  with s1 show ?case by (simp add: bind_act_def)
qed

lemma run_full_method_cases:
  assumes "run_full_method question generate_data s = (res, s')"
  obtains "run_stages question (stages generate_data)
      (s\<lparr>log_contents := log_contents s @ [(''Question: '' @ question @ ''\<newline>'') @ ''\<newline>'']\<rparr>) =
        (Inr (), s')" and "res = Inr (results s')"
  | e where "run_stages question (stages generate_data)
      (s\<lparr>log_contents := log_contents s @ [(''Question: '' @ question @ ''\<newline>'') @ ''\<newline>'']\<rparr>) =
        (Inl e, s')" and "res = Inl e"
  using assms
  by (auto simp: run_full_method_stages bind_act_def log_and_print_def split: prod.splits sum.splits)

lemma stage_keys_of_stages:
  "stage_key ` set (stages generate_data) =
     {Observations, Hypothesis, Predictions, Experiments, Analysis, Conclusion} \<union>
     (if generate_data then {Experimental_data} else {})"
  by (auto simp: stages_def)

section \<open>The record of a completed run\<close>

lemma run_full_method_question:
  assumes "run_full_method question generate_data s = (res, s')"
  shows "results s' Question = Some question"
proof -
  let ?s0 = "s\<lparr>log_contents := log_contents s @ [(''Question: '' @ question @ ''\<newline>'') @ ''\<newline>'']\<rparr>"
  have st: "stages generate_data = Observe # tl (stages generate_data)"
    by (simp add: stages_def)
  from assms have "run_stages question (stages generate_data) ?s0 = (Inr (), s') \<or>
      (\<exists>e. run_stages question (stages generate_data) ?s0 = (Inl e, s'))"
    by (auto elim: run_full_method_cases)
  then obtain r where "run_stages question (Observe # tl (stages generate_data)) ?s0 = (r, s')"
    using st by metis
  then show ?thesis
  proof (cases rule: run_stages_cases)
    case (1 e)
    then show ?thesis using run_stage_results [of question Observe ?s0 "Inl e" s' Question]
      by simp
  next
    case (2 s1)
    have "results s1 Question = Some question"
      using run_stage_results [OF 2(1), of Question] by simp
    with 2(2) show ?thesis by (rule run_stages_question)
  qed
qed

lemma completed_run_observations:
  assumes "run_full_method question generate_data s = (Inr r, s')"
  shows "results s' Observations \<noteq> None"
proof -
  let ?s0 = "s\<lparr>log_contents := log_contents s @ [(''Question: '' @ question @ ''\<newline>'') @ ''\<newline>'']\<rparr>"
  define rest where "rest =
      [Hypothesize, Predict, Experiment] @
      (if generate_data then [Generate_data] else []) @ [Analyze, Conclude]"
  have st: "stages generate_data = Observe # rest"
    by (simp add: stages_def rest_def)
  have keys: "Observations \<notin> stage_key ` set rest"
    by (auto simp: rest_def)
  from assms have "run_stages question (stages generate_data) ?s0 = (Inr (), s')"
    by (auto elim: run_full_method_cases)
  then have "run_stages question (Observe # rest) ?s0 = (Inr (), s')"
    by (simp only: st)
  then obtain s1 where first: "run_stage question Observe ?s0 = (Inr (), s1)"
    and rest: "run_stages question rest s1 = (Inr (), s')"
    by (cases rule: run_stages_cases) simp_all
  from run_stage_Inr [OF first] obtain answer where
    a: "answer_of (client ?s0) (calls ?s0) (stage_request question Observe ?s0) = Inr answer"
    and r1: "results s1 = (results (before_call question Observe ?s0))(Observations := answer)"
    by auto
  from a have "answer \<noteq> None"
    by (auto simp: answer_of_def split: sum.splits)
  with r1 have "results s1 Observations \<noteq> None" by simp
  moreover have "results s' Observations = results s1 Observations"
    using run_stages_frame [OF rest, of Observations] keys by simp
  ultimately show ?thesis by simp
qed

lemma completed_run_populated:
  assumes "run_full_method question generate_data s = (Inr r, s')"
    and "answers_texts (client s)"
    and "k \<noteq> Experimental_data"
  shows "results s' k \<noteq> None"
proof -
  let ?s0 = "s\<lparr>log_contents := log_contents s @ [(''Question: '' @ question @ ''\<newline>'') @ ''\<newline>'']\<rparr>"
  from assms(1) have run: "run_stages question (stages generate_data) ?s0 = (Inr (), s')"
    by (auto elim: run_full_method_cases)
  have texts: "answers_texts (client ?s0)" using assms(2) by simp
  have pop: "results s' (stage_key st) \<noteq> None" if "st \<in> set (stages generate_data)" for st
    using run_stages_completed [OF run that texts] .
  show ?thesis
  proof (cases k)
    case Question
    then show ?thesis using run_full_method_question [OF assms(1)] by simp
  next
    case Observations
    then show ?thesis using pop [of Observe] by (simp add: stages_def)
  next
    case Hypothesis
    then show ?thesis using pop [of Hypothesize] by (simp add: stages_def)
  next
    case Predictions
    then show ?thesis using pop [of Predict] by (simp add: stages_def)
  next
    case Experiments
    then show ?thesis using pop [of Experiment] by (simp add: stages_def)
  next
    case Experimental_data
    with assms(3) show ?thesis by simp
  next
    case Analysis
    then show ?thesis using pop [of Analyze] by (simp add: stages_def)
  next
    case Conclusion
    then show ?thesis using pop [of Conclude] by (simp add: stages_def)
  qed
qed

lemma completed_run_data:
  assumes "run_full_method question generate_data s = (Inr r, s')"
  shows "generate_data \<longrightarrow> answers_texts (client s) \<longrightarrow> results s' Experimental_data \<noteq> None"
    and "\<not> generate_data \<longrightarrow> results s' Experimental_data = results s Experimental_data"
proof -
  let ?s0 = "s\<lparr>log_contents := log_contents s @ [(''Question: '' @ question @ ''\<newline>'') @ ''\<newline>'']\<rparr>"
  from assms have run: "run_stages question (stages generate_data) ?s0 = (Inr (), s')"
    by (auto elim: run_full_method_cases)
  show "generate_data \<longrightarrow> answers_texts (client s) \<longrightarrow> results s' Experimental_data \<noteq> None"
  proof (intro impI)
    assume gd: generate_data and texts: "answers_texts (client s)"
    from gd have "Generate_data \<in> set (stages generate_data)" by (simp add: stages_def)
    moreover from texts have "answers_texts (client ?s0)" by simp
    ultimately show "results s' Experimental_data \<noteq> None"
      using run_stages_completed [OF run, of Generate_data] by simp
  qed
  show "\<not> generate_data \<longrightarrow> results s' Experimental_data = results s Experimental_data"
  proof
    assume "\<not> generate_data"
    then have "Experimental_data \<notin> stage_key ` set (stages generate_data)"
      by (simp add: stage_keys_of_stages)
    then have "results s' Experimental_data = results ?s0 Experimental_data"
      using run_stages_frame [OF run] by simp
    then show "results s' Experimental_data = results s Experimental_data" by simp
  qed
qed

text \<open>
  C4, as stated: in every completed run the keys are populated in pipeline order. The
  methods store \<^verbatim>\<open>choices[0].message.content\<close> unchecked, and a chat message may
  have no content: with a service whose second answer is such a message the run
  completes, \<open>hypothesis\<close> is absent from its record and \<open>predictions\<close>, a later key, is
  populated.
\<close>

theorem completed_run_gap_counterexample:
  "fst (run_full_method ''Why?'' True (new_object no_content_service ''run.log'')) =
     Inr (results (snd (run_full_method ''Why?'' True (new_object no_content_service ''run.log'')))) \<and>
   results (snd (run_full_method ''Why?'' True (new_object no_content_service ''run.log'')))
     Hypothesis = None \<and>
   results (snd (run_full_method ''Why?'' True (new_object no_content_service ''run.log'')))
     Predictions = Some ''ok'' \<and>
   \<not> in_order True
     (results (snd (run_full_method ''Why?'' True (new_object no_content_service ''run.log''))))
     pipeline_keys"
  by (simp add: run_full_method_stages stages_def bind_act_def run_stage_eq Let_def
      log_and_print_def new_object_def no_content_service_def answer_of_def pure_act_def
      pipeline_keys_def)

text \<open>
  C4, amended: when \<^verbatim>\<open>run_full_method\<close> returns, it returns the record of the object,
  in which \<open>question\<close> holds the question and \<open>observations\<close> a text, and
  \<open>experimental_data\<close> has the value it had before the run when the generation of data
  is disabled. When moreover the service answers every chat request with a text, the
  keys of that record are populated in pipeline order: every key other than
  \<open>experimental_data\<close> is populated, and \<open>experimental_data\<close> is populated when data
  were generated.
\<close>

theorem completed_run_in_order:
  assumes "run_full_method question generate_data s = (Inr r, s')"
  shows "r = results s' \<and> r Question = Some question \<and> r Observations \<noteq> None \<and>
    (\<not> generate_data \<longrightarrow> r Experimental_data = results s Experimental_data) \<and>
    (answers_texts (client s) \<longrightarrow>
       in_order generate_data r pipeline_keys \<and>
       (\<forall>k. k \<noteq> Experimental_data \<longrightarrow> r k \<noteq> None) \<and>
       (generate_data \<longrightarrow> r Experimental_data \<noteq> None))"
proof -
  from assms have r: "r = results s'"
    by (auto elim: run_full_method_cases)
  note q = run_full_method_question [OF assms]
  note o = completed_run_observations [OF assms]
  note d = completed_run_data [OF assms]
  have ordered: "in_order generate_data r pipeline_keys \<and>
       (\<forall>k. k \<noteq> Experimental_data \<longrightarrow> r k \<noteq> None) \<and>
       (generate_data \<longrightarrow> r Experimental_data \<noteq> None)"
    if texts: "answers_texts (client s)"
  proof -
    have pop: "r k \<noteq> None" if "k \<noteq> Experimental_data" for k
      using completed_run_populated [OF assms texts that] r by simp
    have data: "generate_data \<longrightarrow> r Experimental_data \<noteq> None"
      using d(1) texts r by simp
    have "in_order generate_data r pipeline_keys"
      using pop [of Question] pop [of Observations] pop [of Hypothesis] pop [of Predictions]
        pop [of Experiments] pop [of Analysis] pop [of Conclusion] data
      by (cases generate_data) (simp_all add: pipeline_keys_def)
    with pop data show ?thesis by blast
  qed
  from r q o d(2) ordered show ?thesis by simp
qed

text \<open>The run of the example object without data satisfies the hypotheses.\<close>

theorem completed_run_in_order_witness:
  "run_full_method ''Why is the sky blue?'' False example_object =
     (Inr (results (snd (run_full_method ''Why is the sky blue?'' False example_object))),
      snd (run_full_method ''Why is the sky blue?'' False example_object)) \<and>
   answers_texts (client example_object) \<and>
   in_order False (results (snd (run_full_method ''Why is the sky blue?'' False example_object)))
     pipeline_keys \<and>
   results (snd (run_full_method ''Why is the sky blue?'' False example_object)) Conclusion \<noteq> None \<and>
   results (snd (run_full_method ''Why is the sky blue?'' False example_object)) Experimental_data = None"
proof -
  let ?run = "run_full_method ''Why is the sky blue?'' False example_object"
  have run: "?run = (Inr (results (snd ?run)), snd ?run)"
    by (simp add: run_full_method_stages stages_def bind_act_def run_stage_eq Let_def
        log_and_print_def new_object_def ok_service_def answer_of_def pure_act_def
        example_object_def)
  have texts: "answers_texts (client example_object)"
    by (simp add: answers_texts_def example_object_def new_object_def ok_service_def)
  have "results example_object Experimental_data = None"
    by (simp add: example_object_def new_object_def)
  with completed_run_in_order [OF run] texts show ?thesis
    using run by simp
qed

section \<open>A call that fails\<close>

lemma stage_key_inj: "stage_key a = stage_key b \<Longrightarrow> a = b"
  by (cases a; cases b) simp_all

lemma distinct_stages: "distinct (stages generate_data)"
  by (simp add: stages_def)

lemma headers_of_question: "headers_of [(''Question: '' @ q @ ''\<newline>'') @ ''\<newline>''] = []"
  by (rule headers_of_text)

lemma run_stages_abort:
  "run_stages question sts s = (Inl e, s') \<Longrightarrow>
     \<exists>finished st rest s1. sts = finished @ st # rest \<and>
       run_stages question finished s = (Inr (), s1) \<and>
       answer_of (client s) (calls s1) (stage_request question st s1) = Inl e"
proof (induction sts arbitrary: s)
  case Nil
  then show ?case by (simp add: pure_act_def)
next
  case (Cons a sts)
  from Cons.prems show ?case
  proof (cases rule: run_stages_cases)
    case (1 e')
    then have "answer_of (client s) (calls s) (stage_request question a s) = Inl e"
      using run_stage_Inl(1) by auto
    moreover have "run_stages question [] s = (Inr (), s)" by (simp add: pure_act_def)
    ultimately show ?thesis by (metis append_Nil)
  next
    case (2 s1)
    from Cons.IH [OF 2(2)] obtain finished st rest s2 where
      sts: "sts = finished @ st # rest"
      and fin: "run_stages question finished s1 = (Inr (), s2)"
      and cl: "answer_of (client s1) (calls s2) (stage_request question st s2) = Inl e"
      by blast
    have "client s1 = client s" using 2(1) by (rule run_stage_fields)
    with cl have "answer_of (client s) (calls s2) (stage_request question st s2) = Inl e" by simp
    moreover have "run_stages question (a # finished) s = (Inr (), s2)"
      using 2(1) fin by (simp add: bind_act_def)
    moreover have "a # sts = (a # finished) @ st # rest" using sts by simp
    ultimately show ?thesis by blast
  qed
qed


text \<open>
  C8, as stated: after a failed call the record holds exactly what the completed stages
  stored and the log has entries only for completed stages. When the first call raises,
  no stage has completed, yet the record holds the question, stored by \<^verbatim>\<open>observe\<close>
  before its call, and the log holds the header of stage 1, written before the call.
\<close>

theorem failed_stage_header_counterexample:
  "fst (run_full_method ''Why?'' True (new_object failing_service ''run.log'')) =
     Inl (Raised ''timeout'') \<and>
   results (snd (run_full_method ''Why?'' True (new_object failing_service ''run.log'')))
     Observations = None \<and>
   results (snd (run_full_method ''Why?'' True (new_object failing_service ''run.log'')))
     Question = Some ''Why?'' \<and>
   log_contents (snd (run_full_method ''Why?'' True (new_object failing_service ''run.log''))) =
     [''=== Scientific Method Log ===\<newline>\<newline>'',
      ''Question: Why?\<newline>\<newline>'',
      ''Step 1: Gathering observations...\<newline>'']"
  by (simp add: run_full_method_stages stages_def bind_act_def run_stage_eq Let_def
        log_and_print_def new_object_def failing_service_def answer_of_def pure_act_def)


text \<open>
  C8, amended: when the stages before \<open>st\<close> have completed and the call of \<open>st\<close> raises
  \<open>e\<close>, nothing catches \<open>e\<close>: \<^verbatim>\<open>run_full_method\<close> ends with \<open>e\<close> at once. The record
  is the one the completed stages left (with the question stored, when \<open>st\<close> is the
  first stage), so the keys of \<open>st\<close> and of the later stages are as they were before the
  run; the failed request is the last one sent; the log holds the entries of the
  completed stages followed by the header of \<open>st\<close> and nothing of the later stages.
\<close>

theorem failed_call_aborts_run:
  assumes split: "stages generate_data = finished @ st # rest"
    and prefix: "run_stages question finished
        (snd (log_and_print (''Question: '' @ question @ ''\<newline>'') s)) = (Inr (), s1)"
    and fails: "answer_of (client s) (calls s1) (stage_request question st s1) = Inl e"
  shows "\<exists>s'. run_full_method question generate_data s = (Inl e, s') \<and>
    results s' = results (before_call question st s1) \<and>
    calls s' = calls s1 @ [stage_request question st s1] \<and>
    log_contents s' = log_contents s1 @ [stage_header st @ ''\<newline>''] \<and>
    headers_of (log_contents s') =
      headers_of (log_contents s) @ map (\<lambda>st. stage_header st @ ''\<newline>'') (finished @ [st]) \<and>
    (\<forall>later \<in> set (st # rest). results s' (stage_key later) = results s (stage_key later))"
proof -
  let ?s0 = "snd (log_and_print (''Question: '' @ question @ ''\<newline>'') s)"
  let ?s' = "(before_call question st s1)
       \<lparr>log_contents := log_contents s1 @ [stage_header st @ ''\<newline>''],
        calls := calls s1 @ [stage_request question st s1]\<rparr>"
  have cl: "client s1 = client s"
    using run_stages_fields [OF prefix] by (simp add: log_and_print_def)
  with fails have "run_stage question st s1 = (Inl e, ?s')"
    by (simp add: run_stage_fails)
  then have "run_stages question (st # rest) s1 = (Inl e, ?s')"
    by (simp add: bind_act_def)
  with prefix have "run_stages question (stages generate_data) ?s0 = (Inl e, ?s')"
    by (simp add: split run_stages_append bind_act_def)
  then have run: "run_full_method question generate_data s = (Inl e, ?s')"
    by (simp add: run_full_method_stages bind_act_def log_and_print_def)
  have hs: "headers_of (log_contents ?s') =
      headers_of (log_contents s) @ map (\<lambda>st. stage_header st @ ''\<newline>'') (finished @ [st])"
  proof -
    have "log_contents ?s0 =
        log_contents s @ [(''Question: '' @ question @ ''\<newline>'') @ ''\<newline>'']"
      by (simp add: log_and_print_def)
    then have "headers_of (log_contents ?s0) = headers_of (log_contents s)"
      by (simp only: headers_of_append headers_of_question append_Nil2)
    with run_stages_headers [OF prefix] show ?thesis
      by (simp add: headers_of_append headers_of_header)
  qed
  have frame: "results ?s' (stage_key later) = results s (stage_key later)"
    if "later \<in> set (st # rest)" for later
  proof -
    have "later \<notin> set finished"
      using distinct_stages [of generate_data] that by (auto simp: split)
    then have "stage_key later \<notin> stage_key ` set finished"
      using stage_key_inj by blast
    moreover have "stage_key later \<noteq> Question" by (cases later) simp_all
    ultimately have "results s1 (stage_key later) = results ?s0 (stage_key later)"
      using run_stages_frame [OF prefix] by simp
    moreover have "results ?s' (stage_key later) = results s1 (stage_key later)"
      using \<open>stage_key later \<noteq> Question\<close> by (simp add: before_call_results)
    ultimately show ?thesis by (simp add: log_and_print_def)
  qed
  from run hs frame show ?thesis by (intro exI [of _ ?s']) simp
qed



text \<open>A run whose third call raises satisfies the hypotheses of the amended C8.\<close>

theorem failed_call_aborts_run_witness:
  "fst (run_full_method ''Why?'' True (new_object flaky_service ''run.log'')) =
     Inl (Raised ''timeout'') \<and>
   results (snd (run_full_method ''Why?'' True (new_object flaky_service ''run.log'')))
     Hypothesis = Some ''ok'' \<and>
   results (snd (run_full_method ''Why?'' True (new_object flaky_service ''run.log'')))
     Predictions = None \<and>
   headers_of
     (log_contents (snd (run_full_method ''Why?'' True (new_object flaky_service ''run.log'')))) =
     [''Step 1: Gathering observations...\<newline>'',
      ''\<newline>Step 2: Formulating hypothesis...\<newline>'',
      ''\<newline>Step 3: Generating predictions...\<newline>'']"
proof -
  let ?s = "new_object flaky_service ''run.log''"
  let ?prefix = "run_stages ''Why?'' [Observe, Hypothesize]
      (snd (log_and_print (''Question: '' @ ''Why?'' @ ''\<newline>'') ?s))"
  have split: "stages True = [Observe, Hypothesize] @ Predict # [Experiment, Generate_data, Analyze, Conclude]"
    by (simp add: stages_def)
  have prefix: "?prefix = (Inr (), snd ?prefix)"
    by (simp add: bind_act_def run_stage_eq Let_def log_and_print_def new_object_def
        flaky_service_def answer_of_def pure_act_def)
  have fails: "answer_of (client ?s) (calls (snd ?prefix)) (stage_request ''Why?'' Predict (snd ?prefix)) =
      Inl (Raised ''timeout'')"
    by (simp add: bind_act_def run_stage_eq Let_def log_and_print_def new_object_def
        flaky_service_def answer_of_def pure_act_def)
  have res: "results (snd ?prefix) Hypothesis = Some ''ok''" "results ?s Predictions = None"
    by (simp_all add: bind_act_def run_stage_eq Let_def log_and_print_def new_object_def
        flaky_service_def answer_of_def pure_act_def)
  have hs: "headers_of (log_contents ?s) = []"
    by (simp add: new_object_def headers_of_def stage_headers_def)
  from failed_call_aborts_run [OF split prefix fails] obtain s' where
    "run_full_method ''Why?'' True ?s = (Inl (Raised ''timeout''), s')"
    "results s' = results (before_call ''Why?'' Predict (snd ?prefix))"
    "headers_of (log_contents s') = headers_of (log_contents ?s) @
       map (\<lambda>st. stage_header st @ ''\<newline>'') ([Observe, Hypothesize] @ [Predict])"
    "\<forall>later \<in> set (Predict # [Experiment, Generate_data, Analyze, Conclude]).
       results s' (stage_key later) = results ?s (stage_key later)"
    by blast
  then show ?thesis using res hs by simp
qed

section \<open>A run without data\<close>

lemma run_stages_split:
  assumes "run_stages question (xs @ ys) s = (Inr u, s')"
  shows "\<exists>s1. run_stages question xs s = (Inr (), s1) \<and> run_stages question ys s1 = (Inr (), s')"
  using assms
  by (auto simp: run_stages_append bind_act_def split: prod.splits sum.splits)

lemma run_stages_single: "run_stages question [st] s = run_stage question st s"
  by (simp add: bind_act_def pure_act_def split: prod.splits sum.splits)

lemma run_stages_calls:
  "run_stages question sts s = (Inr u, s') \<Longrightarrow> length (calls s') = length (calls s) + length sts"
proof (induction sts arbitrary: s)
  case Nil
  then show ?case by (simp add: pure_act_def)
next
  case (Cons st sts)
  from Cons.prems show ?case
  proof (cases rule: run_stages_cases)
    case (1 e)
    then show ?thesis by simp
  next
    case (2 s1)
    from run_stage_fields(3) [OF 2(1)] Cons.IH [OF 2(2)] show ?thesis by simp
  qed
qed

lemma to_json_null: "to_json v = JNull \<longleftrightarrow> v = None"
  by (cases v) (simp_all add: to_json_def)

lemma json_dump_nulls:
  "length (filter (\<lambda>(k, v). v = JNull) (json_dump r)) =
     length (filter (\<lambda>k. r k = None) pipeline_keys)"
  "length (filter (\<lambda>(k, v). v \<noteq> JNull) (json_dump r)) =
     length (filter (\<lambda>k. r k \<noteq> None) pipeline_keys)"
  by (simp_all add: json_dump_def filter_map comp_def to_json_null)

lemma data_context_absent: "r Experimental_data = None \<Longrightarrow> data_context r = no_data_note"
  by (simp add: data_context_def truthy_def)

lemma fresh_no_data_run:
  assumes "run_full_method question False (new_object c name) = (Inr r, s')"
  shows "results s' Experimental_data = None"
    and "length (calls s') = 6"
    and "calls s' ! 4 =
      Chat_completions_create ''gpt-5''
        [(''user'', analyze_prompt_head ((results s')(Analysis := None, Conclusion := None)) @
           no_data_note @ analyze_prompt_tail)]"
    and "headers_of (log_contents s') =
      map (\<lambda>st. stage_header st @ ''\<newline>'')
        [Observe, Hypothesize, Predict, Experiment, Analyze, Conclude]"
proof -
  let ?s = "new_object c name"
  let ?s0 = "?s\<lparr>log_contents := log_contents ?s @ [(''Question: '' @ question @ ''\<newline>'') @ ''\<newline>'']\<rparr>"
  from assms have run: "run_stages question (stages False) ?s0 = (Inr (), s')"
    by (auto elim: run_full_method_cases)
  have st: "stages False = [Observe, Hypothesize, Predict, Experiment] @ [Analyze] @ [Conclude]"
    by (simp add: stages_def)
  from run have "run_stages question
      ([Observe, Hypothesize, Predict, Experiment] @ [Analyze] @ [Conclude]) ?s0 = (Inr (), s')"
    by (simp only: st)
  from run_stages_split [OF this] obtain s4 where
    r4: "run_stages question [Observe, Hypothesize, Predict, Experiment] ?s0 = (Inr (), s4)"
    and r56: "run_stages question ([Analyze] @ [Conclude]) s4 = (Inr (), s')"
    by blast
  from run_stages_split [OF r56] obtain s5 where
    r5: "run_stages question [Analyze] s4 = (Inr (), s5)"
    and r6: "run_stages question [Conclude] s5 = (Inr (), s')"
    by blast
  have fresh: "results ?s0 k = None" for k by (simp add: new_object_def)
  have s4_none: "results s4 k = None" if "k \<in> {Experimental_data, Analysis, Conclusion}" for k
    using run_stages_frame [OF r4, of k] that fresh by auto
  have "results s' Experimental_data = results ?s0 Experimental_data"
    using run_stages_frame [OF run, of Experimental_data] by (simp add: stage_keys_of_stages)
  then show "results s' Experimental_data = None" using fresh [of Experimental_data] by simp
  have "length (calls s') = length (calls ?s0) + length (stages False)"
    using run by (rule run_stages_calls)
  then show "length (calls s') = 6" by (simp add: new_object_def stages_def)
  have l4: "length (calls s4) = 4"
    using run_stages_calls [OF r4] by (simp add: new_object_def)
  have m4: "model s4 = ''gpt-5''"
    using run_stages_fields [OF r4] by (simp add: new_object_def)
  from r5 have a5: "run_stage question Analyze s4 = (Inr (), s5)"
    by (simp only: run_stages_single)
  from r6 have c6: "run_stage question Conclude s5 = (Inr (), s')"
    by (simp only: run_stages_single)
  have "calls s' = calls s4 @ [stage_request question Analyze s4, stage_request question Conclude s5]"
    using run_stage_fields(3) [OF a5] run_stage_fields(3) [OF c6] by simp
  with l4 have "calls s' ! 4 = stage_request question Analyze s4"
    by (simp add: nth_append)
  moreover have "results s4 = (results s')(Analysis := None, Conclusion := None)"
  proof
    fix k
    have "results s' k = results s4 k" if "k \<notin> {Analysis, Conclusion}"
      using run_stages_frame [OF r5, of k] run_stages_frame [OF r6, of k] that by simp
    then show "results s4 k = ((results s')(Analysis := None, Conclusion := None)) k"
      using s4_none [of k] by auto
  qed
  moreover have "data_context (results s4) = no_data_note"
    using s4_none [of Experimental_data] by (simp add: data_context_absent)
  ultimately show "calls s' ! 4 =
      Chat_completions_create ''gpt-5''
        [(''user'', analyze_prompt_head ((results s')(Analysis := None, Conclusion := None)) @
           no_data_note @ analyze_prompt_tail)]"
    using m4 by (simp add: analyze_prompt_def)
  have "headers_of (log_contents ?s0) = []"
  proof -
    have "log_contents ?s0 = [''=== Scientific Method Log ===\<newline>\<newline>''] @
        [(''Question: '' @ question @ ''\<newline>'') @ ''\<newline>'']"
      by (simp add: new_object_def)
    moreover have "headers_of [''=== Scientific Method Log ===\<newline>\<newline>''] = []"
      by (simp add: headers_of_def stage_headers_def)
    ultimately show ?thesis
      by (simp only: headers_of_append headers_of_question append_Nil2)
  qed
  with run_stages_headers [OF run] show "headers_of (log_contents s') =
      map (\<lambda>st. stage_header st @ ''\<newline>'')
        [Observe, Hypothesize, Predict, Experiment, Analyze, Conclude]"
    by (simp add: stages_def)
qed




lemma run_full_method_client:
  assumes "run_full_method question generate_data s = (res, s')"
  shows "client s' = client s"
proof -
  let ?s0 = "s\<lparr>log_contents := log_contents s @ [(''Question: '' @ question @ ''\<newline>'') @ ''\<newline>'']\<rparr>"
  from assms obtain r where "run_stages question (stages generate_data) ?s0 = (r, s')"
    by (auto elim: run_full_method_cases)
  from run_stages_fields [OF this] show ?thesis by simp
qed

lemma main_Finished:
  assumes "main w a = Finished s doc"
  shows "\<exists>question c name r sm.
    resolve_question w a = Some question \<and> question \<noteq> [] \<and>
    run_full_method question (arg_generate_data a) (new_object c name) = (Inr r, sm) \<and>
    s = sm\<lparr>log_contents := log_contents sm @
          [(''\<newline>Results saved to '' @ ''scientific_method_results.json'') @ ''\<newline>'']\<rparr> \<and>
    doc = json_dump (results sm)"
  using assms
  by (auto simp: main_def init_def save_results_def log_and_print_def Let_def
      split: option.splits if_splits sum.splits prod.splits)

lemma headers_of_saved:
  "headers_of [(''\<newline>Results saved to '' @ ''scientific_method_results.json'') @ ''\<newline>''] = []"
  by (simp add: headers_of_def stage_headers_def)

lemma null_keys_json_dump:
  "null_keys (json_dump r) = map key_name (filter (\<lambda>k. r k = None) pipeline_keys)"
  by (simp add: null_keys_def json_dump_def filter_map comp_def to_json_null)

text \<open>
  C5, as stated: a finished run with \<^verbatim>\<open>--no-data\<close> has the seven other keys
  populated and exports seven keys that are not null. The methods store
  \<^verbatim>\<open>choices[0].message.content\<close> unchecked, and a chat message may have no content:
  with a service whose second answer is such a message \<^verbatim>\<open>main\<close> finishes,
  \<open>hypothesis\<close> is absent from the final record, and the exported document has two null
  keys and six with a text.
\<close>

theorem no_data_run_counterexample:
  "reached_end (main no_content_world no_data_args) \<and>
   record_of (main no_content_world no_data_args) Hypothesis = None \<and>
   record_of (main no_content_world no_data_args) Predictions = Some ''ok'' \<and>
   null_keys (export_of (main no_content_world no_data_args)) =
     [''hypothesis'', ''experimental_data''] \<and>
   length (text_keys (export_of (main no_content_world no_data_args))) = 6"
  by (simp add: main_def resolve_question_def py_or_def truthy_def env_question_def
      no_content_world_def example_world_def no_data_args_def init_def Let_def
      save_results_def run_full_method_stages stages_def bind_act_def run_stage_eq
      log_and_print_def new_object_def no_content_service_def answer_of_def pure_act_def
      json_dump_def pipeline_keys_def to_json_def null_keys_def text_keys_def)

text \<open>
  C5, amended: when \<^verbatim>\<open>main\<close> runs with \<^verbatim>\<open>--no-data\<close> and finishes,
  \<open>experimental_data\<close> is absent from the final record; six requests were sent, the
  fifth being that of \<^verbatim>\<open>analyze\<close>, whose prompt holds the fixed note in the place of
  the data; the log holds exactly the six headers of steps 1, 2, 3, 4, 5 and 6, none of
  step 4b; the exported document has the eight keys, the null ones being those absent
  from the record. When moreover the service answers every chat request with a text,
  the seven other keys of the record are populated, and the exported document has seven
  keys with a text and \<open>experimental_data\<close> alone null.
\<close>

theorem no_data_run:
  assumes "\<not> arg_generate_data a" and "main w a = Finished s doc"
  shows "results s Experimental_data = None \<and>
    length (calls s) = 6 \<and>
    calls s ! 4 =
      Chat_completions_create ''gpt-5''
        [(''user'', analyze_prompt_head ((results s)(Analysis := None, Conclusion := None)) @
           no_data_note @ analyze_prompt_tail)] \<and>
    headers_of (log_contents s) =
      map (\<lambda>st. stage_header st @ ''\<newline>'')
        [Observe, Hypothesize, Predict, Experiment, Analyze, Conclude] \<and>
    map fst doc = map key_name pipeline_keys \<and>
    null_keys doc = map key_name (filter (\<lambda>k. results s k = None) pipeline_keys) \<and>
    (answers_texts (client s) \<longrightarrow>
       (\<forall>k. k \<noteq> Experimental_data \<longrightarrow> results s k \<noteq> None) \<and>
       length (filter (\<lambda>(k, v). v \<noteq> JNull) doc) = 7 \<and>
       filter (\<lambda>(k, v). v = JNull) doc = [(''experimental_data'', JNull)])"
proof -
  from main_Finished [OF assms(2)] assms(1) obtain question c name r sm where
    run: "run_full_method question False (new_object c name) = (Inr r, sm)"
    and s: "s = sm\<lparr>log_contents := log_contents sm @
          [(''\<newline>Results saved to '' @ ''scientific_method_results.json'') @ ''\<newline>'']\<rparr>"
    and doc: "doc = json_dump (results sm)"
    by auto
  note fresh = fresh_no_data_run [OF run]
  have res: "results s = results sm" and cs: "calls s = calls sm"
    and cl: "client s = client (new_object c name)"
    using run_full_method_client [OF run] by (simp_all add: s)
  have hs: "headers_of (log_contents s) = headers_of (log_contents sm)"
  proof -
    have "log_contents s = log_contents sm @
        [(''\<newline>Results saved to '' @ ''scientific_method_results.json'') @ ''\<newline>'']"
      by (simp add: s)
    then show ?thesis
      by (simp only: headers_of_append headers_of_saved append_Nil2)
  qed
  have keys: "map fst doc = map key_name pipeline_keys"
    by (simp add: doc json_dump_def comp_def)
  have nulls: "null_keys doc = map key_name (filter (\<lambda>k. results sm k = None) pipeline_keys)"
    by (simp only: doc null_keys_json_dump)
  have texts: "(\<forall>k. k \<noteq> Experimental_data \<longrightarrow> results sm k \<noteq> None) \<and>
       length (filter (\<lambda>(k, v). v \<noteq> JNull) doc) = 7 \<and>
       filter (\<lambda>(k, v). v = JNull) doc = [(''experimental_data'', JNull)]"
    if "answers_texts (client s)"
  proof -
    from that cl have t: "answers_texts (client (new_object c name))" by simp
    have pop: "results sm k \<noteq> None" if "k \<noteq> Experimental_data" for k
      using completed_run_populated [OF run t that] .
    have nonnull: "length (filter (\<lambda>(k, v). v \<noteq> JNull) doc) = 7"
      using pop fresh(1) by (simp add: doc json_dump_nulls pipeline_keys_def)
    have null: "filter (\<lambda>(k, v). v = JNull) doc = [(''experimental_data'', JNull)]"
      using pop fresh(1) by (simp add: doc json_dump_def pipeline_keys_def to_json_null)
    from pop nonnull null show ?thesis by blast
  qed
  from fresh keys nulls texts show ?thesis
    by (simp only: res cs hs) blast
qed

text \<open>
  The scenario of the specification: no question on the command line or in the
  environment, so the built-in question, and \<^verbatim>\<open>--no-data\<close>.
\<close>

lemma main_example:
  "\<exists>s doc. main example_world no_data_args = Finished s doc \<and>
     results s Question = Some ''Does rapamycin increase lifespan?'' \<and>
     answers_texts (client s)"
  by (simp add: main_def resolve_question_def py_or_def truthy_def env_question_def
      example_world_def no_data_args_def init_def Let_def save_results_def
      run_full_method_stages stages_def bind_act_def run_stage_eq log_and_print_def
      new_object_def ok_service_def answer_of_def pure_act_def answers_texts_def)

theorem no_data_run_witness:
  "\<exists>s doc. main example_world no_data_args = Finished s doc \<and>
     answers_texts (client s) \<and>
     results s Question = Some ''Does rapamycin increase lifespan?'' \<and>
     results s Experimental_data = None \<and>
     results s Conclusion \<noteq> None \<and>
     length (calls s) = 6 \<and>
     length (headers_of (log_contents s)) = 6 \<and>
     length (filter (\<lambda>(k, v). v \<noteq> JNull) doc) = 7 \<and>
     filter (\<lambda>(k, v). v = JNull) doc = [(''experimental_data'', JNull)]"
proof -
  have nd: "\<not> arg_generate_data no_data_args" by (simp add: no_data_args_def)
  obtain s doc where fin: "main example_world no_data_args = Finished s doc"
    and q: "results s Question = Some ''Does rapamycin increase lifespan?''"
    and texts: "answers_texts (client s)"
    using main_example by blast
  from no_data_run [OF nd fin] fin q texts show ?thesis by auto
qed

section \<open>The prompt of the analysis\<close>








section \<open>The prompt of the conclusion\<close>





text \<open>
  A record whose six other keys hold texts: the prompt of \<^verbatim>\<open>conclude\<close> holds the
  three texts it is built from and none of the others.
\<close>

lemma conclude_prompt_example:
  "conclude_prompt
     (\<lambda>k. Some (if k = Question then ''Q-text'' else if k = Hypothesis then ''H-text''
        else if k = Analysis then ''A-text'' else ''other'')) =
   ''Synthesize the entire scientific investigation into a conclusion.\<newline>\<newline>Question: \<newline>Q-text\<newline>\<newline>Hypothesis: \<newline>H-text\<newline>\<newline>Analysis: \<newline>A-text\<newline>\<newline>Provide:\<newline>1. Whether the hypothesis is supported, refuted, or requires modification\<newline>2. Key findings and insights\<newline>3. Implications of the results\<newline>4. Next steps for further research\<newline>\<newline>Be clear and concise.''"
  by (simp add: conclude_prompt_def py_str_def)

section \<open>The command line\<close>

lemma main_usage:
  "main w a = Usage_error m \<longleftrightarrow> \<not> truthy (resolve_question w a) \<and> m = usage_message"
  by (auto simp: main_def truthy_def Let_def
      split: option.splits sum.splits prod.splits)

lemma main_usage_iff:
  "(\<exists>m. main w a = Usage_error m) \<longleftrightarrow>
     \<not> truthy (arg_question_flag a) \<and> \<not> truthy (arg_question a) \<and> env_question w = []"
  by (auto simp: main_usage resolve_question_def py_or_def truthy_def)

lemma main_question:
  assumes "main w a = Finished s doc \<or> main w a = Uncaught e (Some s)"
  shows "results s Question = resolve_question w a"
proof -
  from assms obtain question c name res sm where
    q: "resolve_question w a = Some question"
    and run: "run_full_method question (arg_generate_data a) (new_object c name) = (res, sm)"
    and s: "results s = results sm"
    by (auto simp: main_def init_def save_results_def log_and_print_def Let_def
        split: option.splits if_splits sum.splits prod.splits)
  from run_full_method_question [OF run] q s show ?thesis by simp
qed








text \<open>
  C7, as stated: a missing credential is reported by a usage message. In the example
  environment without the credential (and with a constructor that raises without a key)
  \<^verbatim>\<open>main\<close> ends with the exception of the constructor, not with the usage error.
\<close>

theorem missing_credential_counterexample:
  "load_dotenv no_key_world (load_dotenv no_key_world (environ no_key_world))
     ''OPENAI_API_KEY'' = None \<and>
   main no_key_world no_args =
     Uncaught (Raised ''The api_key client option must be set'') None"
  by (simp add: main_def resolve_question_def py_or_def truthy_def env_question_def
      no_key_world_def example_world_def no_args_def init_def Let_def)


text \<open>
  C7, amended: when the credential is missing and a question resolves, \<^verbatim>\<open>main\<close>
  never ends with the usage error: the absent key is passed to the constructor of the
  client; when the constructor raises, that exception ends \<^verbatim>\<open>main\<close> uncaught, before
  the object exists and before any request is sent.
\<close>

theorem missing_credential:
  assumes "load_dotenv w (load_dotenv w (environ w)) ''OPENAI_API_KEY'' = None"
    and "truthy (resolve_question w a)"
  shows "(\<forall>m. main w a \<noteq> Usage_error m) \<and>
    (\<forall>e. OpenAI w None = Inl e \<longrightarrow> main w a = Uncaught e None \<and> calls_of (main w a) = [])"
proof -
  from assms(2) obtain question where q: "resolve_question w a = Some question" "question \<noteq> []"
    by (auto simp: truthy_def split: option.splits)
  have "main w a = Uncaught e None" if "OpenAI w None = Inl e" for e
  proof -
    have "init w (load_dotenv w (environ w)) None None = Inl e"
      using assms(1) that by (simp add: init_def Let_def)
    with q show ?thesis by (simp add: main_def Let_def)
  qed
  moreover have "main w a \<noteq> Usage_error m" for m
    using assms(2) by (simp add: main_usage)
  ultimately show ?thesis by simp
qed


text \<open>The example environment without the credential satisfies the hypotheses.\<close>

theorem missing_credential_witness:
  "load_dotenv no_key_world (load_dotenv no_key_world (environ no_key_world))
     ''OPENAI_API_KEY'' = None \<and>
   truthy (resolve_question no_key_world no_args) \<and>
   OpenAI no_key_world None = Inl (Raised ''The api_key client option must be set'') \<and>
   main no_key_world no_args =
     Uncaught (Raised ''The api_key client option must be set'') None \<and>
   calls_of (main no_key_world no_args) = []"
proof -
  have k: "load_dotenv no_key_world (load_dotenv no_key_world (environ no_key_world))
     ''OPENAI_API_KEY'' = None"
    by (simp add: no_key_world_def example_world_def)
  have q: "truthy (resolve_question no_key_world no_args)"
    by (simp add: resolve_question_def py_or_def truthy_def env_question_def
        no_key_world_def example_world_def no_args_def)
  have c: "OpenAI no_key_world None = Inl (Raised ''The api_key client option must be set'')"
    by (simp add: no_key_world_def example_world_def)
  from missing_credential [OF k q] k q c show ?thesis by simp
qed



text \<open>
  C2: the question is the flag when the flag gives one, else the positional argument
  when it gives one, else the value read from the environment (the variable when it is
  set); \<^verbatim>\<open>main\<close> ends with the usage error exactly when none of the three gives a
  question, and then no request has been sent; in every other case the question that the
  run stores and uses is the resolved one. A source gives a question when its value is a
  text that is not empty.
\<close>

theorem question_priority:
  "(truthy (arg_question_flag a) \<longrightarrow> resolve_question w a = arg_question_flag a) \<and>
   (\<not> truthy (arg_question_flag a) \<and> truthy (arg_question a) \<longrightarrow>
      resolve_question w a = arg_question a) \<and>
   (\<not> truthy (arg_question_flag a) \<and> \<not> truthy (arg_question a) \<longrightarrow>
      resolve_question w a = Some (env_question w)) \<and>
   (\<forall>v. environ w ''SCIENTIFIC_METHOD_QUESTION'' = Some v \<longrightarrow> env_question w = v) \<and>
   ((\<exists>m. main w a = Usage_error m) \<longleftrightarrow>
      \<not> truthy (arg_question_flag a) \<and> \<not> truthy (arg_question a) \<and> env_question w = []) \<and>
   (\<forall>m. main w a = Usage_error m \<longrightarrow> calls_of (main w a) = []) \<and>
   (\<forall>s doc e. main w a = Finished s doc \<or> main w a = Uncaught e (Some s) \<longrightarrow>
      results s Question = resolve_question w a)"
proof -
  have "\<forall>s doc e. main w a = Finished s doc \<or> main w a = Uncaught e (Some s) \<longrightarrow>
      results s Question = resolve_question w a"
    using main_question by blast
  moreover have "\<forall>m. main w a = Usage_error m \<longrightarrow> calls_of (main w a) = []"
    by simp
  moreover have "\<forall>v. environ w ''SCIENTIFIC_METHOD_QUESTION'' = Some v \<longrightarrow> env_question w = v"
    by (simp add: env_question_def)
  moreover have "truthy (arg_question_flag a) \<longrightarrow> resolve_question w a = arg_question_flag a"
    by (simp add: resolve_question_def py_or_def)
  moreover have "\<not> truthy (arg_question_flag a) \<and> truthy (arg_question a) \<longrightarrow>
      resolve_question w a = arg_question a"
    by (simp add: resolve_question_def py_or_def)
  moreover have "\<not> truthy (arg_question_flag a) \<and> \<not> truthy (arg_question a) \<longrightarrow>
      resolve_question w a = Some (env_question w)"
    by (simp add: resolve_question_def py_or_def)
  ultimately show ?thesis using main_usage_iff [of w a] by blast
qed


text \<open>
  Flag and positional argument, positional argument alone, environment variable alone,
  and no source at all.
\<close>

theorem question_priority_witness:
  "resolve_question question_world both_args = Some ''What causes earthquakes?'' \<and>
   resolve_question question_world positional_args = Some ''How does photosynthesis work?'' \<and>
   resolve_question question_world no_args = Some ''Why is the sky blue?'' \<and>
   main empty_question_world no_args = Usage_error usage_message \<and>
   calls_of (main empty_question_world no_args) = [] \<and>
   (\<exists>s doc. main question_world no_args = Finished s doc \<and>
      results s Question = Some ''Why is the sky blue?'')"
proof -
  have f: "truthy (arg_question_flag both_args)"
    "arg_question_flag both_args = Some ''What causes earthquakes?''"
    by (simp_all add: both_args_def truthy_def)
  have p: "\<not> truthy (arg_question_flag positional_args) \<and> truthy (arg_question positional_args)"
    "arg_question positional_args = Some ''How does photosynthesis work?''"
    by (simp_all add: positional_args_def truthy_def)
  have n: "\<not> truthy (arg_question_flag no_args) \<and> \<not> truthy (arg_question no_args)"
    by (simp add: no_args_def truthy_def)
  have v: "environ question_world ''SCIENTIFIC_METHOD_QUESTION'' = Some ''Why is the sky blue?''"
    by (simp add: question_world_def example_world_def)
  have ev: "env_question empty_question_world = []"
    by (simp add: env_question_def empty_question_world_def example_world_def)
  have fin: "\<exists>s doc. main question_world no_args = Finished s doc"
    by (simp add: main_def resolve_question_def py_or_def truthy_def env_question_def
      example_world_def question_world_def no_args_def init_def Let_def save_results_def
      run_full_method_stages stages_def bind_act_def run_stage_eq log_and_print_def
      new_object_def ok_service_def answer_of_def pure_act_def)
  have 1: "resolve_question question_world both_args = Some ''What causes earthquakes?''"
    using question_priority [of both_args question_world] f by simp
  have 2: "resolve_question question_world positional_args = Some ''How does photosynthesis work?''"
    using question_priority [of positional_args question_world] p by simp
  have 3: "resolve_question question_world no_args = Some ''Why is the sky blue?''"
    using question_priority [of no_args question_world] n v by simp
  from question_priority [of no_args empty_question_world] n ev
  obtain m where m: "main empty_question_world no_args = Usage_error m" by blast
  then have "m = usage_message" by (simp add: main_usage)
  with m have 4: "main empty_question_world no_args = Usage_error usage_message"
    "calls_of (main empty_question_world no_args) = []"
    by simp_all
  from fin obtain s doc where s: "main question_world no_args = Finished s doc" by blast
  with question_priority [of no_args question_world] 3
  have "results s Question = Some ''Why is the sky blue?''" by simp
  with s have 5: "\<exists>s doc. main question_world no_args = Finished s doc \<and>
      results s Question = Some ''Why is the sky blue?''"
    by blast
  from 1 2 3 4 5 show ?thesis by simp
qed


text \<open>
  C10: an empty flag resolves as an absent flag and an empty positional argument as an
  absent one, so resolution goes on to the next source; an unset variable gives the
  built-in question; \<^verbatim>\<open>main\<close> ends with the usage error exactly when the flag and
  the positional argument are absent or empty and the variable is set to the empty text.
\<close>

theorem empty_question_falls_through:
  "(arg_question_flag a = Some [] \<longrightarrow>
      resolve_question w a = resolve_question w (a\<lparr>arg_question_flag := None\<rparr>)) \<and>
   (arg_question a = Some [] \<longrightarrow>
      resolve_question w a = resolve_question w (a\<lparr>arg_question := None\<rparr>)) \<and>
   (environ w ''SCIENTIFIC_METHOD_QUESTION'' = None \<longrightarrow>
      env_question w = ''Does rapamycin increase lifespan?'') \<and>
   (main w a = Usage_error usage_message \<longleftrightarrow>
      (arg_question_flag a = None \<or> arg_question_flag a = Some []) \<and>
      (arg_question a = None \<or> arg_question a = Some []) \<and>
      environ w ''SCIENTIFIC_METHOD_QUESTION'' = Some [])"
proof -
  have falsy: "\<not> truthy v \<longleftrightarrow> v = None \<or> v = Some []" for v
    by (cases v) (simp_all add: truthy_def)
  have env: "env_question w = [] \<longleftrightarrow> environ w ''SCIENTIFIC_METHOD_QUESTION'' = Some []"
    by (simp add: env_question_def split: option.splits)
  have "main w a = Usage_error usage_message \<longleftrightarrow>
      (arg_question_flag a = None \<or> arg_question_flag a = Some []) \<and>
      (arg_question a = None \<or> arg_question a = Some []) \<and>
      environ w ''SCIENTIFIC_METHOD_QUESTION'' = Some []"
    using main_usage_iff [of w a] main_usage [of w a] by (simp add: falsy env)
  moreover have "arg_question_flag a = Some [] \<longrightarrow>
      resolve_question w a = resolve_question w (a\<lparr>arg_question_flag := None\<rparr>)"
    by (simp add: resolve_question_def py_or_def truthy_def)
  moreover have "arg_question a = Some [] \<longrightarrow>
      resolve_question w a = resolve_question w (a\<lparr>arg_question := None\<rparr>)"
    by (simp add: resolve_question_def py_or_def truthy_def)
  moreover have "environ w ''SCIENTIFIC_METHOD_QUESTION'' = None \<longrightarrow>
      env_question w = ''Does rapamycin increase lifespan?''"
    by (simp add: env_question_def)
  ultimately show ?thesis by blast
qed


text \<open>
  An empty flag with a positional argument; an empty flag and an empty positional
  argument, with the variable unset and with the variable empty.
\<close>

theorem empty_question_falls_through_witness:
  "resolve_question example_world empty_flag_args = Some ''How does photosynthesis work?'' \<and>
   resolve_question example_world empty_args = Some ''Does rapamycin increase lifespan?'' \<and>
   main empty_question_world empty_args = Usage_error usage_message \<and>
   main example_world empty_args \<noteq> Usage_error usage_message"
proof -
  have a: "arg_question_flag empty_flag_args = Some []"
    "arg_question_flag empty_args = Some []" "arg_question empty_args = Some []"
    by (simp_all add: empty_flag_args_def empty_args_def)
  have e: "environ example_world ''SCIENTIFIC_METHOD_QUESTION'' = None"
    "environ empty_question_world ''SCIENTIFIC_METHOD_QUESTION'' = Some []"
    by (simp_all add: example_world_def empty_question_world_def)
  have r: "resolve_question example_world (empty_flag_args\<lparr>arg_question_flag := None\<rparr>) =
      Some ''How does photosynthesis work?''"
    "resolve_question example_world
       (empty_args\<lparr>arg_question_flag := None, arg_question := None\<rparr>) =
      Some (env_question example_world)"
    by (simp_all add: resolve_question_def py_or_def truthy_def empty_flag_args_def
        empty_args_def)
  have a2: "arg_question (empty_args\<lparr>arg_question_flag := None\<rparr>) = Some []"
    by (simp add: empty_args_def)
  from empty_question_falls_through [of empty_flag_args example_world]
    empty_question_falls_through [of empty_args example_world]
    empty_question_falls_through [of "empty_args\<lparr>arg_question_flag := None\<rparr>" example_world]
    empty_question_falls_through [of empty_args empty_question_world]
    a e r a2
  show ?thesis by simp
qed

end
